theory Spec2Isabelle
  imports Complex_Main "HOL-Library.Sublist" "HOL-Library.Multiset"
begin

section \<open>Terminal analytics (analytics\_visualizer.py)\<close>

text \<open>
  A shallow embedding of class \<open>TerminalAnalytics\<close>. A Python float is modelled by
  the real it stands for, and a quotient of the bar chart is the mathematical one, so NaN
  and infinite values, the negative zero and the rounding of a quotient in its last
  binary digit are outside the model. The conversion of an int to a float is modelled: it
  rounds to 53 bits and raises for an int too large; so is a quotient too large for a
  float, which makes \<open>int\<close> raise. What pandas computes in floats (a mean) is taken
  from the library record \<open>pylib\<close>.
  Strings are byte lists; \<open>len\<close> of a label is its \<open>length\<close>.
\<close>

subsection \<open>Python text formatting\<close>

definition digit_char :: "nat \<Rightarrow> char" where
  "digit_char d = ''0123456789'' ! d"

fun show_nat :: "nat \<Rightarrow> string" where
  "show_nat n = (if n < 10 then [digit_char n] else show_nat (n div 10) @ [digit_char (n mod 10)])"

declare show_nat.simps [simp del]

definition show_int :: "int \<Rightarrow> string" where
  \<comment> \<open>\<open>str(i)\<close> of an int\<close>
  "show_int i = (if i < 0 then CHR ''-'' # show_nat (nat (- i)) else show_nat (nat i))"

definition rjust :: "nat \<Rightarrow> string \<Rightarrow> string" where
  \<comment> \<open>format spec \<open>>w\<close>: pad with blanks on the left up to width w, never cut\<close>
  "rjust w s = replicate (w - length s) CHR '' '' @ s"

definition ljust :: "nat \<Rightarrow> string \<Rightarrow> string" where
  \<comment> \<open>format spec \<open><w\<close>\<close>
  "ljust w s = s @ replicate (w - length s) CHR '' ''"

definition round_half_even :: "real \<Rightarrow> int" where
  \<comment> \<open>the rounding of Python's fixed-point formatting\<close>
  "round_half_even x =
     (let f = \<lfloor>x\<rfloor>; d = x - of_int f
      in if d < 1 / 2 then f else if 1 / 2 < d then f + 1 else if even f then f else f + 1)"

definition zero_pad :: "nat \<Rightarrow> string \<Rightarrow> string" where
  "zero_pad w s = replicate (w - length s) CHR ''0'' @ s"

definition fmt_fixed :: "nat \<Rightarrow> real \<Rightarrow> string" where
  \<comment> \<open>format spec \<open>.nf\<close>: n decimals, the sign kept even when the digits round to zero\<close>
  "fmt_fixed n x =
     (let m = nat (round_half_even (\<bar>x\<bar> * 10 ^ n));
          whole = show_nat (m div 10 ^ n);
          frac = (if n = 0 then [] else CHR ''.'' # zero_pad n (show_nat (m mod 10 ^ n)))
      in (if x < 0 then ''-'' else []) @ whole @ frac)"

fun group3 :: "string \<Rightarrow> string" where
  "group3 (a # b # c # d # rest) = a # b # c # CHR '','' # group3 (d # rest)"
| "group3 s = s"

definition fmt_thousands :: "nat \<Rightarrow> string" where
  \<comment> \<open>format spec \<open>,\<close> on a length\<close>
  "fmt_thousands n = rev (group3 (rev (show_nat n)))"

definition py_int :: "real \<Rightarrow> int" where
  \<comment> \<open>\<open>int(x)\<close> of a float: truncation towards zero\<close>
  "py_int x = (if 0 \<le> x then \<lfloor>x\<rfloor> else \<lceil>x\<rceil>)"

fun join_lines :: "string list \<Rightarrow> string" where
  "join_lines [] = []"
| "join_lines [l] = l"
| "join_lines (l # ls) = l @ CHR 0x0A # join_lines ls"

subsection \<open>Python sequences and dicts\<close>

definition py_sorted_desc :: "('a \<Rightarrow> 'k::linorder) \<Rightarrow> 'a list \<Rightarrow> 'a list" where
  \<comment> \<open>\<open>sorted(xs, key=f, reverse=True)\<close>: the list is reversed, sorted stably and
      reversed again, which keeps equal keys in their original order\<close>
  "py_sorted_desc f xs = rev (sort_key f (rev xs))"

definition py_head :: "int \<Rightarrow> 'a list \<Rightarrow> 'a list" where
  \<comment> \<open>the slice \<open>xs[:m]\<close> (and \<open>head(m)\<close>): a negative m counts from the end\<close>
  "py_head m xs = (if 0 \<le> m then take (nat m) xs else take (length xs - nat (- m)) xs)"

fun dict_set :: "('k \<times> 'v) list \<Rightarrow> 'k \<Rightarrow> 'v \<Rightarrow> ('k \<times> 'v) list" where
  \<comment> \<open>\<open>d[k] = v\<close> on a dict kept as its items in insertion order\<close>
  "dict_set [] k v = [(k, v)]"
| "dict_set ((k', v') # d) k v = (if k' = k then (k', v) # d else (k', v') # dict_set d k v)"

definition py_dict :: "('k \<times> 'v) list \<Rightarrow> ('k \<times> 'v) list" where
  \<comment> \<open>\<open>dict(items)\<close>\<close>
  "py_dict items = foldl (\<lambda>d (k, v). dict_set d k v) [] items"

subsection \<open>Values, columns and frames\<close>

text \<open>
  A scalar is an integer, a float, a text, a timestamp (kept as its \<open>str\<close>) or null.
  A column carries its dtype with its data: 64-bit integers, \<open>float64\<close> (null is NaN),
  \<open>object\<close> (text, mixed values, None) or \<open>datetime64\<close> (null is NaT).
  Column labels are unique, so \<open>data[col]\<close> is the column itself.
\<close>

datatype pyobj = IntO int | FloatO real | StrO string | TimeO string | NullO

datatype coldata =
    IntCol "int list"
  | FloatCol "real option list"
  | ObjCol "pyobj list"
  | TimeCol "string option list"

record column =
  col_name :: pyobj
  col_data :: coldata

record frame =
  frame_columns :: "column list"
  frame_rows :: nat

record pylib =
  memory_usage :: "frame \<Rightarrow> real"
  float_str :: "real \<Rightarrow> string"
  series_mean :: "real list \<Rightarrow> real"

text \<open>
  \<open>pylib\<close> holds what the interpreter and pandas decide and the module only prints:
  the bytes of \<open>data.memory_usage(deep=True).sum()\<close>, \<open>str\<close> of a float and the
  float that \<open>Series.mean()\<close> returns for the values of a column.
\<close>

record datetime =
  year :: nat
  month :: nat
  day :: nat
  hour :: nat
  minute :: nat
  second :: nat
  microsecond :: nat

datatype error = TypeError string | OverflowError

fun try_map :: "('a \<Rightarrow> error + 'b) \<Rightarrow> 'a list \<Rightarrow> error + 'b list" where
  \<comment> \<open>a loop that stops at the first exception\<close>
  "try_map f [] = Inr []"
| "try_map f (x # xs) =
     (case f x of
        Inl e \<Rightarrow> Inl e
      | Inr y \<Rightarrow> (case try_map f xs of Inl e \<Rightarrow> Inl e | Inr ys \<Rightarrow> Inr (y # ys)))"

fun bit_length :: "nat \<Rightarrow> nat" where
  "bit_length n = (if n = 0 then 0 else Suc (bit_length (n div 2)))"

declare bit_length.simps [simp del]

definition nearest_double :: "int \<Rightarrow> int" where
  \<comment> \<open>the double nearest to an int: 53 significant bits, ties to the even one\<close>
  "nearest_double i =
     (let a = nat \<bar>i\<bar>; s = bit_length a - 53;
          q = a div 2 ^ s; r = a mod 2 ^ s;
          q' = (if 2 * r < 2 ^ s then q else if 2 ^ s < 2 * r then q + 1
                else if even q then q else q + 1)
      in sgn i * int (q' * 2 ^ s))"

definition fits_float :: "int \<Rightarrow> bool" where
  \<comment> \<open>the nearest double is finite: below \<open>2 ^ 1024\<close> in magnitude\<close>
  "fits_float i \<longleftrightarrow> bit_length (nat \<bar>nearest_double i\<bar>) \<le> 1024"

definition py_float :: "int \<Rightarrow> error + real" where
  \<comment> \<open>\<open>float(i)\<close>, as the format spec \<open>f\<close> applies it to an int\<close>
  "py_float i = (if fits_float i then Inr (of_int (nearest_double i)) else Inl OverflowError)"

fun col_cells :: "coldata \<Rightarrow> pyobj list" where
  "col_cells (IntCol xs) = map IntO xs"
| "col_cells (FloatCol xs) = map (\<lambda>x. case x of None \<Rightarrow> NullO | Some r \<Rightarrow> FloatO r) xs"
| "col_cells (ObjCol xs) = xs"
| "col_cells (TimeCol xs) = map (\<lambda>x. case x of None \<Rightarrow> NullO | Some t \<Rightarrow> TimeO t) xs"

fun is_number :: "coldata \<Rightarrow> bool" where
  \<comment> \<open>\<open>include=[np.number]\<close>\<close>
  "is_number (IntCol xs) = True"
| "is_number (FloatCol xs) = True"
| "is_number _ = False"

fun is_object :: "coldata \<Rightarrow> bool" where
  \<comment> \<open>\<open>include=['object', 'string']\<close>, also the test \<open>dtype in ['object', 'string']\<close>\<close>
  "is_object (ObjCol xs) = True"
| "is_object _ = False"

fun numbers :: "coldata \<Rightarrow> real list" where
  \<comment> \<open>the values of \<open>dropna()\<close> on a numeric column\<close>
  "numbers (IntCol xs) = map of_int xs"
| "numbers (FloatCol xs) = List.map_filter id xs"
| "numbers _ = []"

definition dropna :: "pyobj list \<Rightarrow> pyobj list" where
  "dropna xs = filter (\<lambda>x. x \<noteq> NullO) xs"

definition df_empty :: "frame \<Rightarrow> bool" where
  \<comment> \<open>\<open>DataFrame.empty\<close>: some axis has length 0\<close>
  "df_empty df \<longleftrightarrow> frame_rows df = 0 \<or> frame_columns df = []"

definition numeric_cols :: "frame \<Rightarrow> column list" where
  "numeric_cols df = filter (\<lambda>c. is_number (col_data c)) (frame_columns df)"

definition string_cols :: "frame \<Rightarrow> column list" where
  "string_cols df = filter (\<lambda>c. is_object (col_data c)) (frame_columns df)"

fun str_obj :: "pylib \<Rightarrow> pyobj \<Rightarrow> string" where
  \<comment> \<open>\<open>str(x)\<close>\<close>
  "str_obj L (IntO i) = show_int i"
| "str_obj L (FloatO r) = float_str L r"
| "str_obj L (StrO s) = s"
| "str_obj L (TimeO t) = t"
| "str_obj L NullO = ''None''"

definition first_seen :: "'a list \<Rightarrow> 'a list" where
  "first_seen xs = rev (remdups (rev xs))"

definition value_counts :: "pyobj list \<Rightarrow> (pyobj \<times> nat) list" where
  \<comment> \<open>\<open>Series.value_counts()\<close>: nulls dropped, most frequent first, equal counts in
      first-encountered order\<close>
  "value_counts xs =
     (let clean = dropna xs
      in py_sorted_desc snd (map (\<lambda>k. (k, count_list clean k)) (first_seen clean)))"

definition nunique :: "pyobj list \<Rightarrow> nat" where
  "nunique xs = length (remdups (dropna xs))"

subsection \<open>Renderables\<close>

record tcolumn =
  col_header :: string
  col_style :: string
  col_justify :: string
  col_no_wrap :: bool
  col_max_width :: "nat option"

record table =
  table_title :: string
  header_style :: string
  table_columns :: "tcolumn list"
  table_rows :: "string list list"

record rich_text =
  text_plain :: string
  text_style :: string
  text_justify :: string

datatype body = TextBody string | TableBody table | ColumnsBody "rich_text list"

record panel =
  panel_body :: body
  panel_title :: "string option"
  border_style :: string

definition Panel :: "body \<Rightarrow> string option \<Rightarrow> string \<Rightarrow> panel" where
  "Panel b t s = \<lparr>panel_body = b, panel_title = t, border_style = s\<rparr>"

subsection \<open>Bar chart\<close>

datatype pynum = PyInt int | PyFloat real | NpInt int

fun num_val :: "pynum \<Rightarrow> real" where
  "num_val (PyInt i) = of_int i"
| "num_val (PyFloat r) = r"
| "num_val (NpInt i) = of_int i"

fun value_str :: "pynum \<Rightarrow> error + string" where
  \<comment> \<open>\<open>f"{value:>8.0f}" if isinstance(value, (int, float)) else f"{value:>8}"\<close>;
      the spec \<open>f\<close> makes a float of an int first; a numpy integer is neither\<close>
  "value_str (PyInt i) =
     (case py_float i of Inl e \<Rightarrow> Inl e | Inr x \<Rightarrow> Inr (rjust 8 (fmt_fixed 0 x)))"
| "value_str (PyFloat r) = Inr (rjust 8 (fmt_fixed 0 r))"
| "value_str (NpInt i) = Inr (rjust 8 (show_int i))"

fun formattable :: "pynum \<Rightarrow> bool" where
  \<comment> \<open>the value can be printed: a Python int must fit a float\<close>
  "formattable (PyInt i) = fits_float i"
| "formattable _ = True"


definition sorted_data :: "(pyobj \<times> pynum) list \<Rightarrow> int \<Rightarrow> (pyobj \<times> pynum) list" where
  "sorted_data d max_bars = py_dict (py_head max_bars (py_sorted_desc (\<lambda>x. num_val (snd x)) d))"

definition max_value :: "(pyobj \<times> pynum) list \<Rightarrow> real" where
  "max_value sd = (if sd \<noteq> [] then Max (set (map (\<lambda>x. num_val (snd x)) sd)) else 1)"

definition max_label_width :: "pylib \<Rightarrow> (pyobj \<times> pynum) list \<Rightarrow> nat" where
  "max_label_width L sd = (if sd \<noteq> [] then Max (set (map (\<lambda>x. length (str_obj L (fst x))) sd)) else 10)"

definition float_overflows :: "real \<Rightarrow> bool" where
  \<comment> \<open>a result of this size is an infinity in float arithmetic\<close>
  "float_overflows x \<longleftrightarrow> 2 ^ 1024 - 2 ^ 970 \<le> \<bar>x\<bar>"

definition bar_overflows :: "real \<Rightarrow> real \<Rightarrow> bool" where
  \<comment> \<open>\<open>int((value / max_value) * 40)\<close> raises OverflowError: the quotient of two ints
      is too large for a float, or \<open>int\<close> is applied to an infinity\<close>
  "bar_overflows mv v \<longleftrightarrow>
     0 < mv \<and> (float_overflows (v / mv) \<or> float_overflows ((v / mv) * 40))"

definition bar_width :: "real \<Rightarrow> real \<Rightarrow> int" where
  \<comment> \<open>the width, when it is computed without an exception\<close>
  "bar_width mv v = (if 0 < mv then py_int ((v / mv) * 40) else 0)"

definition bar :: "real \<Rightarrow> real \<Rightarrow> string" where
  \<comment> \<open>\<open>"#" * bar_width\<close>: empty for a negative width\<close>
  "bar mv v = replicate (nat (bar_width mv v)) CHR ''#''"

definition percentage :: "real \<Rightarrow> real \<Rightarrow> real" where
  "percentage mv v = (if 0 < mv then (v / mv) * 100 else 0)"

definition chart_line :: "pylib \<Rightarrow> real \<Rightarrow> nat \<Rightarrow> pyobj \<times> pynum \<Rightarrow> error + string" where
  "chart_line L mv w e =
     (let label_str = ljust w (take w (str_obj L (fst e)))
      in if bar_overflows mv (num_val (snd e)) then Inl OverflowError
         else case value_str (snd e) of
           Inl err \<Rightarrow> Inl err
         | Inr value_s \<Rightarrow>
             Inr (label_str @ '' | '' @ ljust 40 (bar mv (num_val (snd e))) @ '' | '' @ value_s
                  @ '' ('' @ rjust 5 (fmt_fixed 1 (percentage mv (num_val (snd e)))) @ ''%)''))"

definition chart_lines :: "pylib \<Rightarrow> (pyobj \<times> pynum) list \<Rightarrow> int \<Rightarrow> error + string list" where
  "chart_lines L d max_bars =
     (let sd = sorted_data d max_bars
      in try_map (chart_line L (max_value sd) (max_label_width L sd)) sd)"

definition create_bar_chart :: "pylib \<Rightarrow> (pyobj \<times> pynum) list \<Rightarrow> string \<Rightarrow> int \<Rightarrow> error + panel" where
  "create_bar_chart L d title max_bars =
     (if d = [] then Inr (Panel (TextBody ''[red]No data for chart[/red]'') (Some title) ''none'')
      else case chart_lines L d max_bars of
             Inl e \<Rightarrow> Inl e
           | Inr ls \<Rightarrow> Inr (Panel (TextBody (join_lines ls)) (Some title) ''blue''))"

subsection \<open>Summary statistics\<close>

definition Table :: "string \<Rightarrow> string \<Rightarrow> tcolumn list \<Rightarrow> string list list \<Rightarrow> table" where
  "Table t hs cs rs = \<lparr>table_title = t, header_style = hs, table_columns = cs, table_rows = rs\<rparr>"

definition add_column :: "string \<Rightarrow> string \<Rightarrow> string \<Rightarrow> bool \<Rightarrow> nat option \<Rightarrow> tcolumn" where
  "add_column h st j nw mw =
     \<lparr>col_header = h, col_style = st, col_justify = j, col_no_wrap = nw, col_max_width = mw\<rparr>"

definition mean :: "real list \<Rightarrow> real" where
  \<comment> \<open>the arithmetic mean\<close>
  "mean xs = sum_list xs / real (length xs)"

fun as_float :: "coldata \<Rightarrow> real \<Rightarrow> real" where
  \<comment> \<open>the float that the format spec \<open>f\<close> prints for an element of the column: an
      element of an int64 column is converted (and is never too large)\<close>
  "as_float (IntCol xs) x = of_int (nearest_double \<lfloor>x\<rfloor>)"
| "as_float _ x = x"

definition numeric_rows :: "pylib \<Rightarrow> column \<Rightarrow> string list list" where
  \<comment> \<open>the body of the loop over \<open>numeric_cols[:5]\<close>\<close>
  "numeric_rows L c =
     (let vals = numbers (col_data c)
      in if length vals > 0
         then [[''  '' @ str_obj L (col_name c) @ '' (avg)'', fmt_fixed 2 (series_mean L vals)],
               [''  '' @ str_obj L (col_name c) @ '' (min-max)'',
                fmt_fixed 2 (as_float (col_data c) (Min (set vals))) @ '' - ''
                @ fmt_fixed 2 (as_float (col_data c) (Max (set vals)))]]
         else [])"

definition numeric_section :: "pylib \<Rightarrow> frame \<Rightarrow> string list list" where
  "numeric_section L df =
     (let cols = numeric_cols df
      in if length cols > 0
         then [''[bold]Numeric Columns[/bold]'', show_nat (length cols)]
              # concat (map (numeric_rows L) (take 5 cols))
         else [])"

definition text_section :: "pylib \<Rightarrow> frame \<Rightarrow> string list list" where
  "text_section L df =
     (let cols = string_cols df
      in if length cols > 0
         then [''[bold]Text Columns[/bold]'', show_nat (length cols)]
              # map (\<lambda>c. [''  '' @ str_obj L (col_name c) @ '' (unique)'',
                            show_nat (nunique (col_cells (col_data c)))]) (take 3 cols)
         else [])"

definition basic_rows :: "pylib \<Rightarrow> frame \<Rightarrow> string list list" where
  "basic_rows L df =
     [[''Total Records'', fmt_thousands (frame_rows df)],
      [''Columns'', show_nat (length (frame_columns df))],
      [''Memory Usage'', fmt_fixed 1 (memory_usage L df / 1024) @ '' KB'']]"

definition create_summary_stats :: "pylib \<Rightarrow> frame \<Rightarrow> string \<Rightarrow> panel" where
  "create_summary_stats L df title =
     (if df_empty df then Panel (TextBody ''[red]No data available[/red]'') (Some title) ''none''
      else Panel (TableBody (Table title ''bold cyan''
             [add_column ''Metric'' ''yellow'' ''left'' True None,
              add_column ''Value'' [] ''right'' False None]
             (basic_rows L df @ numeric_section L df @ text_section L df)))
           None ''green'')"

fun body_rows :: "body \<Rightarrow> string list list" where
  \<comment> \<open>the rows of a panel that holds a table\<close>
  "body_rows (TableBody t) = table_rows t"
| "body_rows _ = []"

subsection \<open>Data table\<close>

definition cell_at :: "column \<Rightarrow> nat \<Rightarrow> pyobj" where
  "cell_at c i = (let xs = col_cells (col_data c) in if i < length xs then xs ! i else NullO)"

fun is_float :: "coldata \<Rightarrow> bool" where
  "is_float (FloatCol xs) = True"
| "is_float _ = False"

definition row_upcast :: "frame \<Rightarrow> bool" where
  \<comment> \<open>\<open>iterrows\<close> yields each row as one Series: in a frame of numeric columns only, one
      of them float64, the integers of a row arrive as floats\<close>
  "row_upcast df \<longleftrightarrow>
     list_all (\<lambda>c. is_number (col_data c)) (frame_columns df)
     \<and> list_ex (\<lambda>c. is_float (col_data c)) (frame_columns df)"

fun format_cell :: "pylib \<Rightarrow> bool \<Rightarrow> pyobj \<Rightarrow> string" where
  "format_cell L up NullO = ''[dim]NULL[/dim]''"
| "format_cell L up (FloatO r) = fmt_fixed 2 r"
| "format_cell L up (IntO i) = (if up then fmt_fixed 2 (of_int (nearest_double i)) else show_int i)"
| "format_cell L up v = take 50 (str_obj L v)"

definition create_data_table :: "pylib \<Rightarrow> frame \<Rightarrow> string \<Rightarrow> int \<Rightarrow> panel" where
  "create_data_table L df title max_rows =
     (if df_empty df then Panel (TextBody ''[red]No data available[/red]'') (Some title) ''none''
      else let shown = py_head max_rows [0 ..< frame_rows df]
           in Panel (TableBody (Table
                (title @ '' (showing '' @ show_nat (length shown) @ '' of ''
                   @ show_nat (frame_rows df) @ '' rows)'')
                ''bold magenta''
                (map (\<lambda>c. add_column (str_obj L (col_name c)) [] ''left'' False (Some 20))
                   (frame_columns df))
                (map (\<lambda>i. map (\<lambda>c. format_cell L (row_upcast df) (cell_at c i)) (frame_columns df))
                   shown)))
              None ''cyan'')"

subsection \<open>Distribution chart\<close>

text \<open>
  \<open>np.histogram(values, bins=B)\<close> is numpy's: it raises for \<open>B < 1\<close> and for values that
  are not numbers; otherwise it returns B counts and B + 1 equally spaced edges from the
  least to the greatest value (from 0.5 below to 0.5 above when all values are equal).
  A value on an inner edge counts for the bin to the right; the last bin also holds its
  upper edge.
\<close>

definition bin_edges :: "real list \<Rightarrow> nat \<Rightarrow> real list" where
  "bin_edges xs B =
     (let lo = Min (set xs); hi = Max (set xs);
          first = (if lo = hi then lo - 1 / 2 else lo);
          last = (if lo = hi then hi + 1 / 2 else hi)
      in map (\<lambda>i. first + real i * (last - first) / real B) [0 ..< B + 1])"

definition in_bin :: "real list \<Rightarrow> nat \<Rightarrow> real \<Rightarrow> bool" where
  \<comment> \<open>x counts for bin i of the edges es\<close>
  "in_bin es i x \<longleftrightarrow>
     es ! i \<le> x \<and> (if i + 2 = length es then x \<le> es ! (i + 1) else x < es ! (i + 1))"

definition np_histogram :: "real list \<Rightarrow> int \<Rightarrow> (nat list \<times> real list) option" where
  "np_histogram xs bins =
     (if bins < 1 \<or> xs = [] then None
      else let es = bin_edges xs (nat bins)
           in Some (map (\<lambda>i. length (filter (in_bin es i) xs)) [0 ..< nat bins], es))"

definition bin_label :: "real \<Rightarrow> real \<Rightarrow> string" where
  "bin_label lo hi = fmt_fixed 1 lo @ ''-'' @ fmt_fixed 1 hi"

definition hist_dict :: "nat list \<Rightarrow> real list \<Rightarrow> (pyobj \<times> pynum) list" where
  \<comment> \<open>the loop \<open>hist_data[bin_label] = hist[i]\<close> over \<open>range(len(hist))\<close>\<close>
  "hist_dict hist es =
     foldl (\<lambda>d i. dict_set d (StrO (bin_label (es ! i) (es ! (i + 1)))) (NpInt (int (hist ! i))))
       [] [0 ..< length hist]"

definition counts_dict :: "(pyobj \<times> nat) list \<Rightarrow> (pyobj \<times> pynum) list" where
  \<comment> \<open>\<open>Series.to_dict()\<close> of value counts: the counts as Python ints\<close>
  "counts_dict vc = map (\<lambda>(k, n). (k, PyInt (int n))) vc"

definition hist_data :: "coldata \<Rightarrow> int \<Rightarrow> (pyobj \<times> pynum) list" where
  "hist_data cd bins =
     (if is_object cd then counts_dict (py_head bins (value_counts (col_cells cd)))
      else case (if is_number cd then np_histogram (numbers cd) bins else None) of
             Some (hist, es) \<Rightarrow> hist_dict hist es
           | None \<Rightarrow> counts_dict (py_head bins (value_counts (col_cells cd))))"

definition create_distribution_chart :: "pylib \<Rightarrow> coldata \<Rightarrow> string \<Rightarrow> int \<Rightarrow> error + panel" where
  "create_distribution_chart L cd title bins =
     (if col_cells cd = []
      then Inr (Panel (TextBody ''[red]No data available[/red]'') (Some title) ''none'')
      else if length (dropna (col_cells cd)) = 0
      then Inr (Panel (TextBody ''[red]No valid data after removing nulls[/red]'') (Some title) ''none'')
      else create_bar_chart L (hist_data cd bins) (title @ '' Distribution'') 20)"

subsection \<open>Correlation matrix\<close>

fun opt_numbers :: "coldata \<Rightarrow> real option list" where
  "opt_numbers (IntCol xs) = map (\<lambda>i. Some (of_int i)) xs"
| "opt_numbers (FloatCol xs) = xs"
| "opt_numbers _ = []"

fun paired :: "real option list \<Rightarrow> real option list \<Rightarrow> (real \<times> real) list" where
  \<comment> \<open>the rows in which both columns have a value\<close>
  "paired (Some a # xs) (Some b # ys) = (a, b) # paired xs ys"
| "paired (x # xs) (y # ys) = paired xs ys"
| "paired xs ys = []"

definition pearson :: "real option list \<Rightarrow> real option list \<Rightarrow> real option" where
  \<comment> \<open>Modelled from the spec: \<open>DataFrame.corr()\<close> is pandas code, not under src/. An entry
      is the Pearson coefficient of two columns over the rows where both have a value, or
      missing (None, pandas' NaN) when it is undefined: no such row, or a column that does
      not vary there.\<close>
  "pearson xs ys =
     (let ps = paired xs ys;
          mx = mean (map fst ps); my = mean (map snd ps);
          sxy = sum_list (map (\<lambda>(x, y). (x - mx) * (y - my)) ps);
          sxx = sum_list (map (\<lambda>(x, y). (x - mx) ^ 2) ps);
          syy = sum_list (map (\<lambda>(x, y). (y - my) ^ 2) ps);
          divisor = sqrt (sxx * syy)
      in if length ps < 1 then None else if divisor \<noteq> 0 then Some (sxy / divisor) else None)"

definition corr :: "column list \<Rightarrow> real option list list" where
  "corr cols = map (\<lambda>c. map (\<lambda>d. pearson (opt_numbers (col_data c)) (opt_numbers (col_data d))) cols) cols"

definition corr_cell :: "real option \<Rightarrow> string" where
  "corr_cell c =
     (case c of
        None \<Rightarrow> ''-''
      | Some val \<Rightarrow>
          if \<bar>val\<bar> > 7 / 10 then ''[bold red]'' @ fmt_fixed 2 val @ ''[/bold red]''
          else if \<bar>val\<bar> > 3 / 10 then ''[yellow]'' @ fmt_fixed 2 val @ ''[/yellow]''
          else ''[dim]'' @ fmt_fixed 2 val @ ''[/dim]'')"

fun label_slice :: "nat \<Rightarrow> pyobj \<Rightarrow> error + string" where
  \<comment> \<open>\<open>col[:n]\<close>: only a text label can be sliced\<close>
  "label_slice n (StrO s) = Inr (take n s)"
| "label_slice n _ = Inl (TypeError ''object is not subscriptable'')"

definition create_correlation_matrix :: "frame \<Rightarrow> string \<Rightarrow> error + panel" where
  "create_correlation_matrix df title =
     (let cols = numeric_cols df
      in if (frame_rows df = 0 \<or> cols = []) \<or> length cols < 2
         then Inr (Panel (TextBody ''[yellow]Not enough numeric columns for correlation[/yellow]'')
                     (Some title) ''none'')
         else case try_map (\<lambda>c. label_slice 10 (col_name c)) cols of
                Inl e \<Rightarrow> Inl e
              | Inr headers \<Rightarrow>
                  (case try_map (\<lambda>(c, row). case label_slice 15 (col_name c) of
                                     Inl e \<Rightarrow> Inl e
                                   | Inr idx \<Rightarrow> Inr (idx # map corr_cell row))
                          (zip cols (corr cols)) of
                     Inl e \<Rightarrow> Inl e
                   | Inr rows \<Rightarrow>
                       Inr (Panel (TableBody (Table title ''bold cyan''
                              (add_column [] ''yellow'' ''left'' False None
                                 # map (\<lambda>h. add_column h ''dim'' ''center'' False None) headers)
                              rows))
                            None ''magenta'')))"

definition sq_dev :: "real list \<Rightarrow> real" where
  \<comment> \<open>the sum of the squared deviations from the mean\<close>
  "sq_dev xs = sum_list (map (\<lambda>x. (x - mean xs) ^ 2) xs)"

definition variance :: "real list \<Rightarrow> real option" where
  \<comment> \<open>Modelled from the spec: the (sample) variance of the values of a column, undefined
      for fewer than two values. It states which diagonal entries are 1.\<close>
  "variance xs = (if length xs < 2 then None else Some (sq_dev xs / (real (length xs) - 1)))"

subsection \<open>Dashboard\<close>

datatype layout =
    Leaf string "nat option" nat "panel option"
  | SplitColumn string "nat option" nat "layout list"
  | SplitRow string "nat option" nat "layout list"

text \<open>
  A \<open>Leaf\<close> is a \<open>Layout(name, size, ratio)\<close> with what \<open>update\<close> put there, None
  when it was never updated.
\<close>

definition strftime :: "datetime \<Rightarrow> string" where
  \<comment> \<open>\<open>strftime('%Y-%m-%d %H:%M:%S')\<close>\<close>
  "strftime t =
     zero_pad 4 (show_nat (year t)) @ ''-'' @ zero_pad 2 (show_nat (month t)) @ ''-''
     @ zero_pad 2 (show_nat (day t)) @ '' '' @ zero_pad 2 (show_nat (hour t)) @ '':''
     @ zero_pad 2 (show_nat (minute t)) @ '':'' @ zero_pad 2 (show_nat (second t))"

definition header_panel :: "datetime \<Rightarrow> string \<Rightarrow> panel" where
  "header_panel now title =
     Panel (ColumnsBody
              [\<lparr>text_plain = title, text_style = ''bold bright_blue'', text_justify = ''center''\<rparr>,
               \<lparr>text_plain = ''Generated: '' @ strftime now, text_style = ''dim'',
                  text_justify = ''center''\<rparr>])
       None ''blue''"

definition top_values :: "pylib \<Rightarrow> column \<Rightarrow> error + panel" where
  \<comment> \<open>\<open>create_bar_chart(data[c].value_counts().head(10), f"Top {c} Values")\<close>\<close>
  "top_values L c =
     create_bar_chart L (counts_dict (py_head 10 (value_counts (col_cells (col_data c)))))
       (''Top '' @ str_obj L (col_name c) @ '' Values'') 20"

definition charts :: "pylib \<Rightarrow> frame \<Rightarrow> error + (panel option \<times> panel option)" where
  \<comment> \<open>what the dashboard puts into chart1 and chart2\<close>
  "charts L df =
     (case numeric_cols df of
        n0 # ns \<Rightarrow>
          (case create_distribution_chart L (col_data n0)
                  (str_obj L (col_name n0) @ '' Distribution'') 10 of
             Inl e \<Rightarrow> Inl e
           | Inr chart1 \<Rightarrow>
               if length (n0 # ns) > 1
               then (case create_correlation_matrix df ''Correlation Matrix'' of
                       Inl e \<Rightarrow> Inl e
                     | Inr p \<Rightarrow> Inr (Some chart1, Some p))
               else (case string_cols df of
                       c0 # cs \<Rightarrow>
                         (case top_values L c0 of
                            Inl e \<Rightarrow> Inl e
                          | Inr p \<Rightarrow> Inr (Some chart1, Some p))
                     | [] \<Rightarrow> Inr (Some chart1, None)))
      | [] \<Rightarrow>
          (case string_cols df of
             c0 # c1 # cs \<Rightarrow>
               (case top_values L c0 of
                  Inl e \<Rightarrow> Inl e
                | Inr p0 \<Rightarrow>
                    (case top_values L c1 of
                       Inl e \<Rightarrow> Inl e
                     | Inr p1 \<Rightarrow> Inr (Some p0, Some p1)))
           | [c0] \<Rightarrow>
               (case top_values L c0 of
                  Inl e \<Rightarrow> Inl e
                | Inr p0 \<Rightarrow>
                    Inr (Some p0,
                         Some (Panel (TextBody ''[yellow]Add more data for additional charts[/yellow]'')
                                 None ''none'')))
           | [] \<Rightarrow> Inr (None, None)))"

definition create_analytics_dashboard :: "pylib \<Rightarrow> datetime \<Rightarrow> frame \<Rightarrow> string \<Rightarrow> error + layout" where
  "create_analytics_dashboard L now df title =
     (let header = header_panel now title;
          stats = create_summary_stats L df ''Dataset Overview'';
          preview = create_data_table L df ''Data Preview'' 10
      in case charts L df of
           Inl e \<Rightarrow> Inl e
         | Inr (chart1, chart2) \<Rightarrow>
             Inr (SplitColumn ''root'' None 1
                   [Leaf ''header'' (Some 3) 1 (Some header),
                    SplitRow ''body'' None 1
                      [SplitColumn ''left'' None 1
                         [Leaf ''stats'' None 1 (Some stats), Leaf ''preview'' None 1 (Some preview)],
                       SplitColumn ''right'' None 1
                         [Leaf ''chart1'' None 1 chart1, Leaf ''chart2'' None 1 chart2]]]))"

subsection \<open>Ingestion and dispatch\<close>

type_synonym record_t = "(pyobj \<times> pyobj) list"

datatype raw = RawList "record_t list" | RawDict record_t | RawFrame frame | RawOther

fun is_num_obj :: "pyobj \<Rightarrow> bool" where
  "is_num_obj (IntO i) = True"
| "is_num_obj (FloatO r) = True"
| "is_num_obj _ = False"

fun is_int_obj :: "pyobj \<Rightarrow> bool" where
  "is_int_obj (IntO i) = True"
| "is_int_obj _ = False"

fun is_time_obj :: "pyobj \<Rightarrow> bool" where
  "is_time_obj (TimeO t) = True"
| "is_time_obj _ = False"

fun in_int64 :: "pyobj \<Rightarrow> bool" where
  "in_int64 (IntO i) \<longleftrightarrow> - (2 ^ 63) \<le> i \<and> i < 2 ^ 63"
| "in_int64 _ = False"

fun in_uint64 :: "pyobj \<Rightarrow> bool" where
  "in_uint64 (IntO i) \<longleftrightarrow> 0 \<le> i \<and> i < 2 ^ 64"
| "in_uint64 _ = False"

fun beyond_64 :: "pyobj \<Rightarrow> bool" where
  "beyond_64 (IntO i) \<longleftrightarrow> i < - (2 ^ 63) \<or> 2 ^ 64 \<le> i"
| "beyond_64 _ = False"

definition infer_column :: "pyobj list \<Rightarrow> coldata" where
  \<comment> \<open>pandas' dtype inference on the values of one key: integers without a gap that fit
      64 bits give an integer column, numbers give float64, timestamps datetime64,
      anything else (an integer beyond 64 bits, nulls only) object\<close>
  "infer_column xs =
     (let vs = dropna xs
      in if list_ex beyond_64 xs then ObjCol xs
         else if vs \<noteq> [] \<and> (list_all in_int64 xs \<or> list_all in_uint64 xs)
         then IntCol (concat (map (\<lambda>x. case x of IntO i \<Rightarrow> [i] | _ \<Rightarrow> []) xs))
         else if vs \<noteq> [] \<and> list_all is_int_obj xs then ObjCol xs
         else if vs \<noteq> [] \<and> list_all is_num_obj vs
         then FloatCol (map (\<lambda>x. case x of IntO i \<Rightarrow> Some (of_int (nearest_double i))
                                        | FloatO r \<Rightarrow> Some r | _ \<Rightarrow> None) xs)
         else if vs \<noteq> [] \<and> list_all is_time_obj vs
         then TimeCol (map (\<lambda>x. case x of TimeO t \<Rightarrow> Some t | _ \<Rightarrow> None) xs)
         else ObjCol xs)"

definition pd_DataFrame :: "record_t list \<Rightarrow> frame" where
  \<comment> \<open>\<open>pd.DataFrame(records)\<close>: one row per record, the keys in first-seen order as
      columns, null where a record has no such key\<close>
  "pd_DataFrame recs =
     \<lparr>frame_columns =
        map (\<lambda>k. \<lparr>col_name = k,
                   col_data = infer_column
                     (map (\<lambda>r. case map_of r k of None \<Rightarrow> NullO | Some v \<Rightarrow> v) recs)\<rparr>)
          (first_seen (concat (map (map fst) recs))),
      frame_rows = length recs\<rparr>"

datatype artifact = APanel panel | ALayout layout

definition to_frame :: "raw \<Rightarrow> frame option" where
  \<comment> \<open>the conversion at the head of \<open>display_analytics\<close>. \<open>pd.DataFrame([data])\<close> does not
      raise on a mapping of scalars, so the key/value frame of the \<open>except\<close> branch is
      never built here.\<close>
  "to_frame data =
     (case data of
        RawList recs \<Rightarrow> Some (pd_DataFrame recs)
      | RawDict r \<Rightarrow> Some (pd_DataFrame [r])
      | RawFrame df \<Rightarrow> Some df
      | RawOther \<Rightarrow> None)"

definition display_analytics :: "pylib \<Rightarrow> datetime \<Rightarrow> raw \<Rightarrow> string \<Rightarrow> string \<Rightarrow> error + artifact" where
  \<comment> \<open>the result is what \<open>console.print\<close> receives\<close>
  "display_analytics L now data analytics_type title =
     (case to_frame data of
        None \<Rightarrow> Inr (APanel (Panel (TextBody ''[red]Unsupported data type for analytics[/red]'')
                               (Some ''Error'') ''none''))
      | Some df \<Rightarrow>
          if df_empty df
          then Inr (APanel (Panel (TextBody ''[yellow]No data available for analytics[/yellow]'')
                              (Some title) ''none''))
          else if analytics_type = ''dashboard''
          then map_sum id ALayout (create_analytics_dashboard L now df title)
          else if analytics_type = ''summary''
          then Inr (APanel (create_summary_stats L df title))
          else if analytics_type = ''table''
          then Inr (APanel (create_data_table L df title 20))
          else if analytics_type = ''correlation''
          then map_sum id APanel (create_correlation_matrix df title)
          else map_sum id ALayout (create_analytics_dashboard L now df title))"

subsection \<open>Example environment\<close>

definition demo_lib :: pylib where
  \<comment> \<open>a library instance for the examples: 8 bytes a cell, floats with one decimal\<close>
  "demo_lib =
     \<lparr>memory_usage = (\<lambda>df. 8 * real (frame_rows df) * real (length (frame_columns df))),
      float_str = fmt_fixed 1,
      series_mean = mean\<rparr>"

definition demo_now :: datetime where
  "demo_now = \<lparr>year = 2024, month = 1, day = 2, hour = 3, minute = 4, second = 5, microsecond = 6\<rparr>"

definition demo_later :: datetime where
  \<comment> \<open>one second after \<open>demo_now\<close>\<close>
  "demo_later = demo_now\<lparr>second := 6\<rparr>"

definition two_numeric :: frame where
  "two_numeric =
     \<lparr>frame_columns =
        [\<lparr>col_name = StrO ''x'', col_data = IntCol [1, 2, 4]\<rparr>,
         \<lparr>col_name = StrO ''name'', col_data = ObjCol [StrO ''p'', StrO ''q'', NullO]\<rparr>,
         \<lparr>col_name = StrO ''y'', col_data = FloatCol [Some 2, None, Some 5]\<rparr>],
      frame_rows = 3\<rparr>"

definition six_numeric :: frame where
  \<comment> \<open>six numeric columns, the first of them all null\<close>
  "six_numeric =
     \<lparr>frame_columns =
        [\<lparr>col_name = StrO ''a'', col_data = FloatCol [None, None]\<rparr>,
         \<lparr>col_name = StrO ''b'', col_data = IntCol [1, 2]\<rparr>,
         \<lparr>col_name = StrO ''c'', col_data = IntCol [3, 4]\<rparr>,
         \<lparr>col_name = StrO ''d'', col_data = FloatCol [Some (5 / 2), None]\<rparr>,
         \<lparr>col_name = StrO ''e'', col_data = IntCol [7, 8]\<rparr>,
         \<lparr>col_name = StrO ''f'', col_data = IntCol [5, 6]\<rparr>],
      frame_rows = 2\<rparr>"

section \<open>Properties\<close>

subsection \<open>Sorting, slicing and dicts\<close>









lemma py_head_length: "0 \<le> m \<Longrightarrow> length (py_head m xs) \<le> nat m"
  by (simp add: py_head_def)






lemma le_max_value: "e \<in> set sd \<Longrightarrow> num_val (snd e) \<le> max_value sd"
  by (auto simp: max_value_def intro!: Max_ge)

subsection \<open>Bar chart\<close>

lemma try_map_all:
  assumes "\<And>x. x \<in> set xs \<Longrightarrow> \<exists>y. f x = Inr y"
  shows "\<exists>ys. try_map f xs = Inr ys \<and> length ys = length xs
              \<and> (\<forall>i < length xs. f (xs ! i) = Inr (ys ! i))"
  using assms
proof (induction xs)
  case Nil
  then show ?case by simp
next
  case (Cons x xs)
  from Cons.prems obtain y where y: "f x = Inr y" by auto
  from Cons.IH Cons.prems obtain ys where ys: "try_map f xs = Inr ys" "length ys = length xs"
    "\<forall>i < length xs. f (xs ! i) = Inr (ys ! i)" by auto
  have "\<forall>i < length (x # xs). f ((x # xs) ! i) = Inr ((y # ys) ! i)"
    using y ys(3) by (auto simp: nth_Cons split: nat.splits)
  with y ys(1,2) show ?case by simp
qed

lemma value_str_formattable: "formattable v \<Longrightarrow> \<exists>s. value_str v = Inr s"
  by (cases v) (simp_all add: py_float_def)

lemma float_overflows_code [code]:
  "float_overflows x \<longleftrightarrow>
     179769313486231580793728971405303415079934132710037826936173778980444968292764750946649017977587207096330286416692887910946555547851940402630657488671505820681908902000708383676273854845817711531764475730270069855571366959622842914819860834936475292719074168444365510704342711559699508093042880177904174497792
       \<le> \<bar>x\<bar>"
  by (simp add: float_overflows_def)

lemma abs_div_le:
  assumes "0 < mv" and "\<bar>v\<bar> \<le> c * mv"
  shows "\<bar>v / mv\<bar> \<le> (c::real)"
proof -
  from assms(1) have "\<bar>v / mv\<bar> = \<bar>v\<bar> / mv" by simp
  also from assms have "\<dots> \<le> c" by (simp add: pos_divide_le_eq)
  finally show ?thesis .
qed

lemma no_bar_overflow:
  assumes "mv \<le> 0 \<or> \<bar>v\<bar> \<le> 2 ^ 1000 * mv"
  shows "\<not> bar_overflows mv v"
proof (cases "0 < mv")
  case False
  then show ?thesis by (simp add: bar_overflows_def)
next
  case True
  define c :: real where "c = 2 ^ 1000"
  from True assms have "\<bar>v\<bar> \<le> c * mv" by (simp add: c_def)
  with True have q: "\<bar>v / mv\<bar> \<le> c" by (rule abs_div_le)
  have e: "\<bar>(v / mv) * 40\<bar> = \<bar>v / mv\<bar> * 40" by (simp add: abs_mult)
  from q have "\<bar>v / mv\<bar> * 40 \<le> c * 40" by (rule mult_right_mono) simp
  then have p: "\<bar>(v / mv) * 40\<bar> \<le> c * 40" by (simp only: e)
  define t :: real where "t = 2 ^ 1024 - 2 ^ 970"
  have big: "c * 40 < t" and pos: "0 \<le> c" by (simp_all add: c_def t_def)
  from q big pos have a: "\<not> t \<le> \<bar>v / mv\<bar>" by linarith
  from p big have b: "\<not> t \<le> \<bar>(v / mv) * 40\<bar>" by linarith
  from a b show ?thesis
    unfolding bar_overflows_def float_overflows_def t_def by blast
qed


lemma py_head_length_eq: "0 \<le> m \<Longrightarrow> length (py_head m xs) = min (nat m) (length xs)"
  by (simp add: py_head_def min_def)


lemma set_py_sorted_desc: "set (py_sorted_desc f xs) = set xs"
  by (simp add: py_sorted_desc_def)




lemma bit_length_0: "bit_length 0 = 0"
  by (simp add: bit_length.simps)
lemma bit_length_pos: "0 < n \<Longrightarrow> bit_length n = Suc (bit_length (n div 2))"
  by (subst bit_length.simps) simp

lemma bit_length_le_iff: "bit_length n \<le> k \<longleftrightarrow> n < 2 ^ k"
proof (induction n arbitrary: k rule: bit_length.induct)
  case (1 n)
  show ?case
  proof (cases "n = 0")
    case True
    then show ?thesis by (simp add: bit_length_0)
  next
    case False
    show ?thesis
    proof (cases k)
      case 0
      with False show ?thesis by (simp add: bit_length_pos)
    next
      case (Suc j)
      have "bit_length n \<le> Suc j \<longleftrightarrow> bit_length (n div 2) \<le> j"
        using False by (simp add: bit_length_pos)
      also have "\<dots> \<longleftrightarrow> n div 2 < 2 ^ j"
        using False by (rule "1.IH")
      also have "\<dots> \<longleftrightarrow> n < 2 ^ Suc j"
        by (simp add: div_less_iff_less_mult mult.commute)
      finally show ?thesis by (simp only: Suc)
    qed
  qed
qed

lemma bit_length_eq: "2 ^ k \<le> n \<Longrightarrow> n < 2 ^ Suc k \<Longrightarrow> bit_length n = Suc k"
proof -
  assume a: "2 ^ k \<le> n" and b: "n < 2 ^ Suc k"
  from a have "\<not> bit_length n \<le> k" by (simp add: bit_length_le_iff)
  moreover from b have "bit_length n \<le> Suc k" by (simp only: bit_length_le_iff)
  ultimately show ?thesis by simp
qed

lemma fits_float_iff: "fits_float i \<longleftrightarrow> \<bar>nearest_double i\<bar> < 2 ^ 1024"
proof -
  have "nat \<bar>nearest_double i\<bar> < 2 ^ 1024 \<longleftrightarrow> \<bar>nearest_double i\<bar> < 2 ^ 1024"
    by (simp add: nat_less_iff)
  then show ?thesis by (simp add: fits_float_def bit_length_le_iff)
qed

lemma nearest_double_small:
  assumes "\<bar>i\<bar> < 2 ^ 53"
  shows "nearest_double i = i"
proof -
  from assms have "nat \<bar>i\<bar> < 2 ^ 53" by (simp add: nat_less_iff)
  then have "bit_length (nat \<bar>i\<bar>) \<le> 53" by (simp only: bit_length_le_iff)
  then have s: "bit_length (nat \<bar>i\<bar>) - 53 = 0" by simp
  show ?thesis
    unfolding nearest_double_def Let_def s
    by (simp add: sgn_if del: One_nat_def) 
qed

lemma nearest_double_2_1024: "nearest_double (2 ^ 1024) = 2 ^ 1024"
proof -
  have n: "nat \<bar>2 ^ 1024 :: int\<bar> = 2 ^ 1024" by (simp add: nat_power_eq)
  have b: "bit_length (2 ^ 1024) = Suc 1024" by (rule bit_length_eq) simp_all
  have s: "Suc 1024 - 53 = (972::nat)" by simp
  have e: "(2::nat) ^ 1024 = 2 ^ 52 * 2 ^ 972" by (simp flip: power_add)
  have q: "(2::nat) ^ 1024 div 2 ^ 972 = 2 ^ 52" "(2::nat) ^ 1024 mod 2 ^ 972 = 0"
    unfolding e by simp_all
  show ?thesis
    unfolding nearest_double_def Let_def n b s q
    by (simp flip: power_add)
qed

lemma fits_float_small: "\<bar>i\<bar> < 2 ^ 53 \<Longrightarrow> fits_float i"
proof -
  assume a: "\<bar>i\<bar> < 2 ^ 53"
  have "(2::int) ^ 53 < 2 ^ 1024" by simp
  with a show ?thesis by (simp add: fits_float_iff nearest_double_small)
qed


lemma value_str_too_large: "value_str (PyInt (2 ^ 1024)) = Inl OverflowError"
proof -
  have "\<not> fits_float (2 ^ 1024)"
    unfolding fits_float_iff nearest_double_2_1024 by simp
  then show ?thesis by (simp add: py_float_def)
qed






lemma digit_char_not_dot: "d < 10 \<Longrightarrow> digit_char d \<noteq> CHR ''.''"
proof -
  assume "d < 10"
  then have "d \<in> {0, 1, 2, 3, 4, 5, 6, 7, 8, 9}" by auto
  then show ?thesis by (auto simp: digit_char_def)
qed

lemma show_nat_no_dot: "CHR ''.'' \<notin> set (show_nat n)"
proof (induction n rule: show_nat.induct)
  case (1 n)
  show ?case
  proof (cases "n < 10")
    case True
    then have "digit_char n \<noteq> CHR ''.''" by (rule digit_char_not_dot)
    with True show ?thesis by (auto simp: show_nat.simps [of n])
  next
    case False
    then have "CHR ''.'' \<notin> set (show_nat (n div 10))" by (rule "1.IH")
    moreover have "digit_char (n mod 10) \<noteq> CHR ''.''" by (rule digit_char_not_dot) simp
    ultimately show ?thesis using False by (simp add: show_nat.simps [of n])
  qed
qed

lemma show_nat_nonempty: "show_nat n \<noteq> []"
  by (simp add: show_nat.simps [of n])

lemma round_half_even_of_int: "round_half_even (of_int k) = k"
  by (simp add: round_half_even_def)

lemma fmt_fixed_0: "fmt_fixed 0 x = (if x < 0 then ''-'' else []) @ show_nat (nat (round_half_even \<bar>x\<bar>))"
  by (simp add: fmt_fixed_def)

lemma fmt_fixed_0_of_int: "fmt_fixed 0 (of_int i) = show_int i"
proof -
  have "\<bar>real_of_int i\<bar> = of_int \<bar>i\<bar>" by simp
  then have "round_half_even \<bar>real_of_int i\<bar> = \<bar>i\<bar>" by (simp only: round_half_even_of_int)
  then show ?thesis by (auto simp: fmt_fixed_0 show_int_def)
qed

lemma rjust_length: "w \<le> length (rjust w s)"
  by (simp add: rjust_def)

lemma rjust_set: "c \<noteq> CHR '' '' \<Longrightarrow> c \<in> set (rjust w s) \<longleftrightarrow> c \<in> set s"
  by (auto simp: rjust_def)


lemma value_str_PyInt:
  "value_str (PyInt i)
     = (if fits_float i then Inr (rjust 8 (show_int (nearest_double i))) else Inl OverflowError)"
  by (simp add: py_float_def fmt_fixed_0_of_int)

lemma show_int_no_dot: "CHR ''.'' \<notin> set (show_int i)"
  by (simp add: show_int_def show_nat_no_dot)

lemma show_nat_2_53: "show_nat 9007199254740992 = ''9007199254740992''"
  by (simp add: show_nat.simps digit_char_def)

lemma nearest_double_2_53_1: "nearest_double (2 ^ 53 + 1) = 9007199254740992"
  by (simp add: nearest_double_def bit_length_0 bit_length_pos Let_def)

text \<open>
  Claim C9, as amended. The value column is right-aligned to width 8 and never cut. A
  Python int or float goes through the format spec \<open>.0f\<close>: an int is converted to a
  float first, which is exact below \<open>2 ^ 53\<close> in magnitude, rounds to the nearest
  double above (\<open>2 ^ 53 + 1\<close> prints as 9007199254740992) and raises OverflowError
  when the int is too large for a float (\<open>2 ^ 1024\<close>); the float is printed as the
  nearest integer, ties to even, with no decimal point, so a non-integral float loses
  its fractional part. A numpy integer, neither int nor float, is printed as given.
\<close>

theorem value_str_format:
  "value_str (PyInt i)
     = (if fits_float i then Inr (rjust 8 (show_int (nearest_double i))) else Inl OverflowError)
   \<and> (fits_float i \<longleftrightarrow> \<bar>nearest_double i\<bar> < 2 ^ 1024)
   \<and> (\<bar>i\<bar> < 2 ^ 53 \<longrightarrow> value_str (PyInt i) = Inr (rjust 8 (show_int i)))
   \<and> value_str (PyInt (2 ^ 53 + 1)) = Inr ''9007199254740992''
   \<and> value_str (PyInt (2 ^ 1024)) = Inl OverflowError
   \<and> value_str (PyFloat r)
       = Inr (rjust 8 ((if r < 0 then ''-'' else []) @ show_nat (nat (round_half_even \<bar>r\<bar>))))
   \<and> value_str (NpInt i) = Inr (rjust 8 (show_int i))
   \<and> (value_str (PyInt i) = Inr s \<or> value_str (PyFloat r) = Inr s
        \<longrightarrow> CHR ''.'' \<notin> set s \<and> 8 \<le> length s)"
proof -
  have small: "value_str (PyInt i) = Inr (rjust 8 (show_int i))" if "\<bar>i\<bar> < 2 ^ 53"
  proof -
    from that have f: "fits_float i" by (rule fits_float_small)
    from that have n: "nearest_double i = i" by (rule nearest_double_small)
    show ?thesis by (simp only: value_str_PyInt f n if_True)
  qed
  have "fits_float (2 ^ 53 + 1)"
    unfolding fits_float_iff nearest_double_2_53_1 by simp
  then have e1: "value_str (PyInt (2 ^ 53 + 1)) = Inr ''9007199254740992''"
    by (simp only: value_str_PyInt nearest_double_2_53_1 if_True)
       (simp add: show_int_def show_nat_2_53 rjust_def)
  have e2: "value_str (PyInt (2 ^ 1024)) = Inl OverflowError"
    by (rule value_str_too_large)
  have flt: "value_str (PyFloat r)
       = Inr (rjust 8 ((if r < 0 then ''-'' else []) @ show_nat (nat (round_half_even \<bar>r\<bar>))))"
    by (simp only: value_str.simps fmt_fixed_0)
  have np: "value_str (NpInt i) = Inr (rjust 8 (show_int i))"
    by simp
  have di: "CHR ''.'' \<notin> set s \<and> 8 \<le> length s" if "value_str (PyInt i) = Inr s"
  proof -
    from that have "s = rjust 8 (show_int (nearest_double i))"
      unfolding value_str_PyInt by (simp split: if_splits)
    then show ?thesis by (simp add: rjust_set rjust_length show_int_no_dot)
  qed
  have df: "CHR ''.'' \<notin> set s \<and> 8 \<le> length s" if "value_str (PyFloat r) = Inr s"
  proof -
    from that have "s = rjust 8 ((if r < 0 then ''-'' else []) @ show_nat (nat (round_half_even \<bar>r\<bar>)))"
      unfolding flt by simp
    then show ?thesis by (simp add: rjust_set rjust_length show_nat_no_dot)
  qed
  from value_str_PyInt [of i] fits_float_iff [of i] small e1 e2 flt np di df
  show ?thesis by blast
qed

theorem value_str_format_witness:
  "\<bar>190 :: int\<bar> < 2 ^ 53
   \<and> value_str (PyInt 190) = Inr ''     190''
   \<and> value_str (PyFloat (7 / 2)) = Inr ''       4''
   \<and> CHR ''.'' \<notin> set ''     190''"
proof -
  have h: "\<bar>190 :: int\<bar> < 2 ^ 53" by simp
  have s: "rjust 8 (show_int 190) = ''     190''" by code_simp
  have f: "value_str (PyFloat (7 / 2)) = Inr ''       4''" by code_simp
  from value_str_format [of 190 "7 / 2" "''     190''"]
  have "\<bar>190 :: int\<bar> < 2 ^ 53 \<longrightarrow> value_str (PyInt 190) = Inr (rjust 8 (show_int 190))"
    by blast
  with h have "value_str (PyInt 190) = Inr (rjust 8 (show_int 190))" by blast
  then have i: "value_str (PyInt 190) = Inr ''     190''" by (simp only: s)
  have d: "CHR ''.'' \<notin> set ''     190''" by simp
  from h i f d show ?thesis by blast
qed

text \<open>
  Claim C9 as stated fails: 2.5 is not integral, yet it is printed as \<open>2\<close>, exactly
  as the integer 2 is.
\<close>

theorem value_str_fraction_counterexample:
  "num_val (PyFloat (5 / 2)) \<notin> \<int>
   \<and> value_str (PyFloat (5 / 2)) = Inr ''       2''
   \<and> value_str (PyFloat (5 / 2)) = value_str (PyInt 2)"
proof -
  have "(5 / 2 :: real) \<notin> \<int>"
  proof
    assume "(5 / 2 :: real) \<in> \<int>"
    then obtain k :: int where "(5 / 2 :: real) = of_int k" by (auto elim: Ints_cases)
    then have "(5::real) = of_int (2 * k)" by simp
    then have "(5::int) = 2 * k" by (metis of_int_eq_iff of_int_numeral)
    then show False by presburger
  qed
  moreover have "value_str (PyFloat (5 / 2)) = Inr ''       2''" by code_simp
  moreover have "value_str (PyInt 2) = Inr ''       2''" by code_simp
  ultimately show ?thesis by simp
qed

subsection \<open>Correlation tiers\<close>

lemma fmt_075: "fmt_fixed 2 (75 / 100) = ''0.75''" by code_simp
lemma fmt_070: "fmt_fixed 2 (7 / 10) = ''0.70''" by code_simp
lemma fmt_020: "fmt_fixed 2 (2 / 10) = ''0.20''" by code_simp

text \<open>
  Claim C5. The cell of a correlation is marked by its magnitude with strict bounds: 0.75
  is strong (bold red), exactly 0.70 is moderate (yellow), 0.20 is weak (dim); in general
  strong means \<open>\<bar>v\<bar> > 0.7\<close>, moderate \<open>0.3 < \<bar>v\<bar> \<le> 0.7\<close>, weak \<open>\<bar>v\<bar> \<le> 0.3\<close>.
\<close>

theorem correlation_tier_boundaries:
  "corr_cell (Some (75 / 100)) = ''[bold red]0.75[/bold red]''
   \<and> corr_cell (Some (7 / 10)) = ''[yellow]0.70[/yellow]''
   \<and> corr_cell (Some (2 / 10)) = ''[dim]0.20[/dim]''
   \<and> (\<forall>v. prefix ''[bold red]'' (corr_cell (Some v)) = (7 / 10 < \<bar>v\<bar>))
   \<and> (\<forall>v. prefix ''[yellow]'' (corr_cell (Some v)) = (3 / 10 < \<bar>v\<bar> \<and> \<bar>v\<bar> \<le> 7 / 10))
   \<and> (\<forall>v. prefix ''[dim]'' (corr_cell (Some v)) = (\<bar>v\<bar> \<le> 3 / 10))"
proof -
  have a: "corr_cell (Some (75 / 100)) = ''[bold red]0.75[/bold red]''"
    using fmt_075 by (simp add: corr_cell_def)
  have b: "corr_cell (Some (7 / 10)) = ''[yellow]0.70[/yellow]''"
    using fmt_070 by (simp add: corr_cell_def)
  have c: "corr_cell (Some (2 / 10)) = ''[dim]0.20[/dim]''"
    using fmt_020 by (simp add: corr_cell_def)
  have s: "prefix ''[bold red]'' (corr_cell (Some v)) = (7 / 10 < \<bar>v\<bar>)" for v
    by (simp add: corr_cell_def)
  have m: "prefix ''[yellow]'' (corr_cell (Some v)) = (3 / 10 < \<bar>v\<bar> \<and> \<bar>v\<bar> \<le> 7 / 10)" for v
    by (auto simp: corr_cell_def)
  have w: "prefix ''[dim]'' (corr_cell (Some v)) = (\<bar>v\<bar> \<le> 3 / 10)" for v
    by (auto simp: corr_cell_def)
  from a b c s m w show ?thesis by blast
qed

subsection \<open>Charts that return\<close>

lemma dict_set_values:
  "\<forall>e \<in> set d. P (snd e) \<Longrightarrow> P v \<Longrightarrow> \<forall>e \<in> set (dict_set d k v). P (snd e)"
proof (induction d)
  case Nil
  then show ?case by simp
next
  case (Cons x d)
  obtain k' v' where x: "x = (k', v')" by (cases x)
  from Cons.prems have tl: "\<forall>e \<in> set d. P (snd e)" and hd: "P v'"
    by (simp_all add: x)
  from Cons.IH [OF tl Cons.prems(2)] have ih: "\<forall>e \<in> set (dict_set d k v). P (snd e)" .
  show ?case
  proof (cases "k' = k")
    case True
    with tl Cons.prems(2) show ?thesis by (simp add: x)
  next
    case False
    with ih hd show ?thesis by (simp add: x)
  qed
qed

lemma foldl_dict_set_values:
  "\<forall>e \<in> set acc. P (snd e) \<Longrightarrow> \<forall>x \<in> set xs. P (val x) \<Longrightarrow>
   \<forall>e \<in> set (foldl (\<lambda>d x. dict_set d (key x) (val x)) acc xs). P (snd e)"
proof (induction xs arbitrary: acc)
  case Nil
  then show ?case by simp
next
  case (Cons x xs)
  from Cons.prems have "\<forall>e \<in> set (dict_set acc (key x) (val x)). P (snd e)"
    by (intro dict_set_values) simp_all
  with Cons.prems show ?case by (simp add: Cons.IH)
qed

lemma py_dict_values: "\<forall>e \<in> set xs. P (snd e) \<Longrightarrow> \<forall>e \<in> set (py_dict xs). P (snd e)"
  using foldl_dict_set_values [of "[]" P xs snd fst]
  by (simp add: py_dict_def case_prod_unfold)

lemma sorted_data_values:
  assumes "\<forall>e \<in> set d. P (snd e)"
  shows "\<forall>e \<in> set (sorted_data d m). P (snd e)"
proof -
  have "set (py_head m (py_sorted_desc (\<lambda>x. num_val (snd x)) d)) \<subseteq> set d"
    using set_take_subset [of _ "py_sorted_desc (\<lambda>x. num_val (snd x)) d"]
    by (simp add: py_head_def set_py_sorted_desc)
  with assms have "\<forall>e \<in> set (py_head m (py_sorted_desc (\<lambda>x. num_val (snd x)) d)). P (snd e)"
    by blast
  then show ?thesis unfolding sorted_data_def by (rule py_dict_values)
qed

lemma chart_line_formattable:
  "formattable (snd e) \<Longrightarrow> \<not> bar_overflows mv (num_val (snd e)) \<Longrightarrow>
   \<exists>l. chart_line L mv w e = Inr l"
proof -
  assume "formattable (snd e)" and n: "\<not> bar_overflows mv (num_val (snd e))"
  then obtain s where "value_str (snd e) = Inr s" using value_str_formattable by blast
  with n show ?thesis by (simp add: chart_line_def Let_def)
qed

lemma create_bar_chart_returns:
  assumes "\<forall>e \<in> set d. formattable (snd e) \<and> 0 \<le> num_val (snd e)"
  shows "\<exists>p. create_bar_chart L d t m = Inr p"
proof (cases "d = []")
  case True
  then show ?thesis by (simp add: create_bar_chart_def)
next
  case False
  let ?sd = "sorted_data d m"
  from assms have sd: "\<forall>e \<in> set ?sd. formattable (snd e) \<and> 0 \<le> num_val (snd e)"
    by (rule sorted_data_values)
  have "\<exists>l. chart_line L (max_value ?sd) (max_label_width L ?sd) e = Inr l" if "e \<in> set ?sd" for e
  proof -
    from sd that have f: "formattable (snd e)" and nn: "0 \<le> num_val (snd e)" by auto
    from le_max_value [OF that] nn
    have "max_value ?sd \<le> 0 \<or> \<bar>num_val (snd e)\<bar> \<le> 2 ^ 1000 * max_value ?sd"
      by (cases "max_value ?sd \<le> 0") (simp_all add: mult_le_cancel_right1 order_trans [of _ "max_value ?sd"])
    then have "\<not> bar_overflows (max_value ?sd) (num_val (snd e))" by (rule no_bar_overflow)
    with f show ?thesis by (rule chart_line_formattable)
  qed
  from try_map_all [of ?sd "chart_line L (max_value ?sd) (max_label_width L ?sd)", OF this]
  obtain ls where "chart_lines L d m = Inr ls" by (auto simp: chart_lines_def Let_def)
  with False show ?thesis by (simp add: create_bar_chart_def)
qed

lemma create_bar_chart_title: "create_bar_chart L d t m = Inr p \<Longrightarrow> panel_title p = Some t"
  by (auto simp: create_bar_chart_def Panel_def split: if_splits sum.splits)

lemma hist_dict_formattable:
  "\<forall>e \<in> set (hist_dict hist es). formattable (snd e) \<and> 0 \<le> num_val (snd e)"
  unfolding hist_dict_def
  by (rule foldl_dict_set_values) simp_all

lemma numbers_nonempty:
  "is_number cd \<Longrightarrow> dropna (col_cells cd) \<noteq> [] \<Longrightarrow> numbers cd \<noteq> []"
proof (cases cd)
  case (FloatCol xs)
  assume "dropna (col_cells cd) \<noteq> []"
  then obtain x where "x \<in> set xs" "x \<noteq> None"
    unfolding FloatCol by (auto simp: dropna_def filter_empty_conv split: option.splits)
  then show ?thesis
    unfolding FloatCol by (auto simp: List.map_filter_def filter_empty_conv)
qed (auto simp: dropna_def)

lemma distribution_chart_returns:
  assumes "is_number cd" and "1 \<le> bins"
  shows "\<exists>p. create_distribution_chart L cd t bins = Inr p"
proof (cases "dropna (col_cells cd) = []")
  case True
  then show ?thesis by (simp add: create_distribution_chart_def)
next
  case False
  from numbers_nonempty [OF assms(1) False] have "numbers cd \<noteq> []" .
  with assms have "\<exists>hist es. hist_data cd bins = hist_dict hist es"
    by (cases cd) (auto simp: hist_data_def np_histogram_def Let_def)
  then obtain hist es where "hist_data cd bins = hist_dict hist es" by blast
  with hist_dict_formattable [of hist es]
  have "\<forall>e \<in> set (hist_data cd bins). formattable (snd e) \<and> 0 \<le> num_val (snd e)"
    by simp
  from create_bar_chart_returns [OF this, of L "t @ '' Distribution''" 20] False
  show ?thesis by (auto simp: create_distribution_chart_def dropna_def)
qed

lemma distribution_chart_title:
  "create_distribution_chart L cd t bins = Inr p \<Longrightarrow>
   panel_title p = Some (if dropna (col_cells cd) = [] then t else t @ '' Distribution'')"
proof -
  have "dropna (col_cells cd) \<noteq> [] \<Longrightarrow> col_cells cd \<noteq> []"
    by (auto simp: dropna_def)
  moreover assume "create_distribution_chart L cd t bins = Inr p"
  ultimately show ?thesis
    by (auto simp: create_distribution_chart_def Panel_def dest: create_bar_chart_title
             split: if_splits)
qed

subsection \<open>Distribution chart title\<close>

text \<open>
  Claim C3 at the dashboard of a frame with the single column \<open>sales\<close>: the
  dashboard passes the title \<open>sales Distribution\<close> and the distribution engine
  appends \<open>Distribution\<close> once more, so chart pane 1 is titled
  \<open>sales Distribution Distribution\<close>. Given \<open>sales\<close> the engine answers with the
  title \<open>sales Distribution\<close>, while its placeholder for a column of nulls keeps
  the title as given.
\<close>

theorem distribution_title_doubled:
  "map_sum id (\<lambda>c. map_option panel_title (fst c)) (charts demo_lib \<lparr>frame_columns = [\<lparr>col_name = StrO ''sales'', col_data = IntCol [100, 150, 90]\<rparr>], frame_rows = 3\<rparr>)
     = Inr (Some (Some ''sales Distribution Distribution''))
   \<and> map_sum id panel_title (create_distribution_chart demo_lib (IntCol [100, 150, 90]) ''sales'' 10)
     = Inr (Some ''sales Distribution'')
   \<and> map_sum id panel_title (create_distribution_chart demo_lib (FloatCol [None, None]) ''sales'' 10)
     = Inr (Some ''sales'')"
proof -
  have ne: "dropna (col_cells (IntCol [100, 150, 90])) \<noteq> []"
    by (simp add: dropna_def)
  obtain p where p: "create_distribution_chart demo_lib (IntCol [100, 150, 90]) ''sales Distribution'' 10 = Inr p"
    using distribution_chart_returns [of "IntCol [100, 150, 90]" 10] by auto
  from distribution_chart_title [OF p] ne
  have tp: "panel_title p = Some ''sales Distribution Distribution''" by simp
  have a: "map_sum id (\<lambda>c. map_option panel_title (fst c)) (charts demo_lib \<lparr>frame_columns = [\<lparr>col_name = StrO ''sales'', col_data = IntCol [100, 150, 90]\<rparr>], frame_rows = 3\<rparr>)
     = Inr (Some (Some ''sales Distribution Distribution''))"
    by (simp add: charts_def numeric_cols_def string_cols_def p tp)
  obtain q where q: "create_distribution_chart demo_lib (IntCol [100, 150, 90]) ''sales'' 10 = Inr q"
    using distribution_chart_returns [of "IntCol [100, 150, 90]" 10] by auto
  from distribution_chart_title [OF q] ne
  have b: "map_sum id panel_title (create_distribution_chart demo_lib (IntCol [100, 150, 90]) ''sales'' 10)
     = Inr (Some ''sales Distribution'')" by (simp add: q)
  have c: "map_sum id panel_title (create_distribution_chart demo_lib (FloatCol [None, None]) ''sales'' 10)
     = Inr (Some ''sales'')"
    by (simp add: create_distribution_chart_def dropna_def Panel_def)
  from a b c show ?thesis by blast
qed

subsection \<open>Dashboard charts\<close>

text \<open>
  Claim C1 at a frame of one numeric column and no text column: the branch for a single
  numeric column has no \<open>else\<close>, so chart pane 2 is never updated and holds no
  placeholder panel. The branch for one text column and no numeric column does put the
  placeholder there.
\<close>

theorem dashboard_single_numeric_chart2:
  "map_sum id snd
     (charts demo_lib
        \<lparr>frame_columns = [\<lparr>col_name = StrO ''sales'', col_data = IntCol [100, 150, 90]\<rparr>],
         frame_rows = 3\<rparr>) = Inr None
   \<and> map_sum id snd
     (charts demo_lib
        \<lparr>frame_columns = [\<lparr>col_name = StrO ''product'', col_data = ObjCol [StrO ''A'', StrO ''B'', StrO ''A'']\<rparr>],
         frame_rows = 3\<rparr>)
     = Inr (Some (Panel (TextBody ''[yellow]Add more data for additional charts[/yellow]'') None ''none''))"
proof -
  obtain p where p: "create_distribution_chart demo_lib (IntCol [100, 150, 90]) ''sales Distribution'' 10 = Inr p"
    using distribution_chart_returns [of "IntCol [100, 150, 90]" 10] by auto
  have t: "top_values demo_lib \<lparr>col_name = StrO ''product'', col_data = ObjCol [StrO ''A'', StrO ''B'', StrO ''A'']\<rparr>
      = Inr (Panel (TextBody (join_lines
               [''A | ######################################## |        2 (100.0%)'',
                ''B | ####################                     |        1 ( 50.0%)'']))
             (Some ''Top product Values'') ''blue'')"
    by code_simp
  show ?thesis
    by (simp add: charts_def numeric_cols_def string_cols_def p t)
qed

subsection \<open>Empty datasets\<close>

text \<open>
  Claim C8. Whatever the view type, an input whose frame is empty (no rows or no columns)
  is answered by the single placeholder panel and no exception; the empty list of records
  and the empty mapping are such inputs.
\<close>

theorem empty_dataset_placeholder:
  "(to_frame data = Some df \<and> df_empty df \<longrightarrow>
      display_analytics L now data view title
        = Inr (APanel (Panel (TextBody ''[yellow]No data available for analytics[/yellow]'')
                         (Some title) ''none'')))
   \<and> display_analytics L now (RawList []) view title
        = Inr (APanel (Panel (TextBody ''[yellow]No data available for analytics[/yellow]'')
                         (Some title) ''none''))
   \<and> display_analytics L now (RawDict []) view title
        = Inr (APanel (Panel (TextBody ''[yellow]No data available for analytics[/yellow]'')
                         (Some title) ''none''))"
proof -
  have l: "to_frame (RawList []) = Some \<lparr>frame_columns = [], frame_rows = 0\<rparr>"
    by (simp add: to_frame_def pd_DataFrame_def first_seen_def)
  have d: "to_frame (RawDict []) = Some \<lparr>frame_columns = [], frame_rows = 1\<rparr>"
    by (simp add: to_frame_def pd_DataFrame_def first_seen_def)
  show ?thesis
    by (simp add: display_analytics_def l d df_empty_def)
qed

theorem empty_dataset_placeholder_witness:
  "to_frame (RawFrame \<lparr>frame_columns = [\<lparr>col_name = StrO ''sales'', col_data = IntCol []\<rparr>], frame_rows = 0\<rparr>)
     = Some \<lparr>frame_columns = [\<lparr>col_name = StrO ''sales'', col_data = IntCol []\<rparr>], frame_rows = 0\<rparr>
   \<and> df_empty \<lparr>frame_columns = [\<lparr>col_name = StrO ''sales'', col_data = IntCol []\<rparr>], frame_rows = 0\<rparr>
   \<and> display_analytics demo_lib demo_now
        (RawFrame \<lparr>frame_columns = [\<lparr>col_name = StrO ''sales'', col_data = IntCol []\<rparr>], frame_rows = 0\<rparr>)
        ''correlation'' ''Sales''
      = Inr (APanel (Panel (TextBody ''[yellow]No data available for analytics[/yellow]'')
                       (Some ''Sales'') ''none''))"
proof -
  let ?df = "\<lparr>frame_columns = [\<lparr>col_name = StrO ''sales'', col_data = IntCol []\<rparr>], frame_rows = 0\<rparr>"
  have h1: "to_frame (RawFrame ?df) = Some ?df" by (simp add: to_frame_def)
  have h2: "df_empty ?df" by (simp add: df_empty_def)
  from empty_dataset_placeholder [of "RawFrame ?df" ?df demo_lib demo_now "''correlation''" "''Sales''"] h1 h2
  show ?thesis by blast
qed

subsection \<open>Repeated rendering\<close>

lemma dashboard_eq_iff:
  "create_analytics_dashboard L n1 df t = create_analytics_dashboard L n2 df t
     \<longleftrightarrow> (\<exists>e. charts L df = Inl e) \<or> strftime n1 = strftime n2"
  by (cases "charts L df")
     (auto simp: create_analytics_dashboard_def header_panel_def Panel_def Let_def split: prod.splits)

lemma map_sum_layout_eq: "map_sum id ALayout x = map_sum id ALayout y \<longleftrightarrow> x = y"
  by (cases x; cases y) simp_all

text \<open>
  Claim C2, as amended. The dashboard stamps its header with \<open>Generated:\<close> and the
  time of the clock, read by \<open>create_analytics_dashboard\<close> itself. Two renderings of
  the same input, view type and title give the same artifact exactly when the clock
  shows the same second, or the view is \<open>summary\<close>, \<open>table\<close> or
  \<open>correlation\<close>, or the input is unsupported or empty, or the dashboard fails
  before it returns.
\<close>

theorem render_repeatable_iff:
  "display_analytics L now1 d v t = display_analytics L now2 d v t
     \<longleftrightarrow> strftime now1 = strftime now2
         \<or> v \<in> {''summary'', ''table'', ''correlation''}
         \<or> (case to_frame d of
               None \<Rightarrow> True
             | Some df \<Rightarrow> df_empty df \<or> (\<exists>e. charts L df = Inl e))"
  by (auto simp: display_analytics_def map_sum_layout_eq dashboard_eq_iff split: option.splits)

lemma strftime_demo: "strftime demo_now = ''2024-01-02 03:04:05'' \<and> strftime demo_later = ''2024-01-02 03:04:06''"
  by code_simp

text \<open>
  Claim C2 as stated fails: the dashboard of one record differs between two renderings
  one second apart.
\<close>

theorem render_repeatable_counterexample:
  "display_analytics demo_lib demo_now (RawList [[(StrO ''sales'', IntO 100)]]) ''dashboard'' ''Sales''
     \<noteq> display_analytics demo_lib demo_later (RawList [[(StrO ''sales'', IntO 100)]]) ''dashboard'' ''Sales''"
proof -
  let ?df = "\<lparr>frame_columns = [\<lparr>col_name = StrO ''sales'', col_data = IntCol [100]\<rparr>], frame_rows = 1\<rparr>"
  have tf: "to_frame (RawList [[(StrO ''sales'', IntO 100)]]) = Some ?df"
    by code_simp
  have ne: "\<not> df_empty ?df" by (simp add: df_empty_def)
  obtain p where p: "create_distribution_chart demo_lib (IntCol [100]) ''sales Distribution'' 10 = Inr p"
    using distribution_chart_returns [of "IntCol [100]" 10] by auto
  have ch: "\<nexists>e. charts demo_lib ?df = Inl e"
    by (simp add: charts_def numeric_cols_def string_cols_def p)
  have st: "strftime demo_now \<noteq> strftime demo_later"
    using strftime_demo by simp
  from ne ch st show ?thesis
    by (simp add: display_analytics_def tf map_sum_layout_eq dashboard_eq_iff)
qed

subsection \<open>Summary statistics\<close>

lemma summary_rows:
  "\<not> df_empty df \<Longrightarrow>
   body_rows (panel_body (create_summary_stats L df title))
     = basic_rows L df @ numeric_section L df @ text_section L df"
  by (simp add: create_summary_stats_def Panel_def Table_def)

lemma avg_label_inj: "''  '' @ a @ '' (avg)'' = ''  '' @ b @ '' (avg)'' \<longleftrightarrow> a = b"
  by simp

lemma avg_not_minmax: "a @ '' (avg)'' \<noteq> b @ '' (min-max)''"
proof
  assume "a @ '' (avg)'' = b @ '' (min-max)''"
  then have "rev (a @ '' (avg)'') = rev (b @ '' (min-max)'')" by simp
  then show False by simp
qed

lemma avg_not_unique: "a @ '' (avg)'' \<noteq> b @ '' (unique)''"
proof
  assume "a @ '' (avg)'' = b @ '' (unique)''"
  then have "rev (a @ '' (avg)'') = rev (b @ '' (unique)'')" by simp
  then show False by simp
qed

lemma minmax_not_unique: "a @ '' (min-max)'' \<noteq> b @ '' (unique)''"
proof
  assume "a @ '' (min-max)'' = b @ '' (unique)''"
  then have "rev (a @ '' (min-max)'') = rev (b @ '' (unique)'')" by simp
  then show False by simp
qed

lemma avg_in_numeric_rows:
  "(\<exists>v. [''  '' @ n @ '' (avg)'', v] \<in> set (numeric_rows L c)) \<longleftrightarrow>
     str_obj L (col_name c) = n \<and> numbers (col_data c) \<noteq> []"
  using avg_not_minmax [of n "str_obj L (col_name c)"]
  by (auto simp: numeric_rows_def Let_def)

lemma minmax_in_numeric_rows:
  "(\<exists>v. [''  '' @ n @ '' (min-max)'', v] \<in> set (numeric_rows L c)) \<longleftrightarrow>
     str_obj L (col_name c) = n \<and> numbers (col_data c) \<noteq> []"
  using avg_not_minmax [of "str_obj L (col_name c)" n]
  by (auto simp: numeric_rows_def Let_def)

lemma in_numeric_section:
  assumes "x \<noteq> ''[bold]Numeric Columns[/bold]''"
  shows "(\<exists>v. [x, v] \<in> set (numeric_section L df)) \<longleftrightarrow>
     (\<exists>c \<in> set (take 5 (numeric_cols df)). \<exists>v. [x, v] \<in> set (numeric_rows L c))"
proof (cases "numeric_cols df = []")
  case True
  then show ?thesis by (simp add: numeric_section_def)
next
  case False
  with assms show ?thesis by (auto simp: numeric_section_def Let_def)
qed

lemma avg_in_numeric_section:
  "(\<exists>v. [''  '' @ n @ '' (avg)'', v] \<in> set (numeric_section L df)) \<longleftrightarrow>
     (\<exists>c \<in> set (take 5 (numeric_cols df)).
        str_obj L (col_name c) = n \<and> numbers (col_data c) \<noteq> [])"
proof -
  have "''  '' @ n @ '' (avg)'' \<noteq> ''[bold]Numeric Columns[/bold]''" by simp
  from in_numeric_section [OF this] show ?thesis
    by (simp only: avg_in_numeric_rows)
qed

lemma minmax_in_numeric_section:
  "(\<exists>v. [''  '' @ n @ '' (min-max)'', v] \<in> set (numeric_section L df)) \<longleftrightarrow>
     (\<exists>c \<in> set (take 5 (numeric_cols df)).
        str_obj L (col_name c) = n \<and> numbers (col_data c) \<noteq> [])"
proof -
  have "''  '' @ n @ '' (min-max)'' \<noteq> ''[bold]Numeric Columns[/bold]''" by simp
  from in_numeric_section [OF this] show ?thesis
    by (simp only: minmax_in_numeric_rows)
qed

lemma nested_not_basic: "[''  '' @ x, v] \<notin> set (basic_rows L df)"
  by (simp add: basic_rows_def)

lemma avg_not_text: "[''  '' @ n @ '' (avg)'', v] \<notin> set (text_section L df)"
  using avg_not_unique by (auto simp: text_section_def Let_def)

lemma minmax_not_text: "[''  '' @ n @ '' (min-max)'', v] \<notin> set (text_section L df)"
  using minmax_not_unique by (auto simp: text_section_def Let_def)

lemma header_not_nested: "[''[bold]Numeric Columns[/bold]'', v] \<notin> set (numeric_rows L c)"
  by (simp add: numeric_rows_def Let_def)

lemma numeric_header_in_section:
  "[''[bold]Numeric Columns[/bold]'', v] \<in> set (numeric_section L df) \<longleftrightarrow>
     numeric_cols df \<noteq> [] \<and> v = show_nat (length (numeric_cols df))"
  using header_not_nested by (auto simp: numeric_section_def Let_def)

lemma numeric_header_not_elsewhere:
  "[''[bold]Numeric Columns[/bold]'', v] \<notin> set (basic_rows L df)
   \<and> [''[bold]Numeric Columns[/bold]'', v] \<notin> set (text_section L df)"
  by (auto simp: basic_rows_def text_section_def Let_def)

text \<open>
  Claim C10. In the summary of a non-empty frame the row \<open>Numeric Columns\<close> counts
  every numeric column, null or not. A row \<open>(avg)\<close> and a row \<open>(min-max)\<close> are
  there exactly for the columns among the first five numeric ones (in declaration order,
  all-null columns included in the five) that have a value that is not null.
\<close>

theorem summary_numeric_rows:
  assumes "\<not> df_empty df"
  shows "([''[bold]Numeric Columns[/bold]'', v]
            \<in> set (body_rows (panel_body (create_summary_stats L df title)))
          \<longleftrightarrow> numeric_cols df \<noteq> [] \<and> v = show_nat (length (numeric_cols df)))
       \<and> ((\<exists>v. [''  '' @ n @ '' (avg)'', v]
                  \<in> set (body_rows (panel_body (create_summary_stats L df title))))
          \<longleftrightarrow> (\<exists>c \<in> set (take 5 (numeric_cols df)).
                 str_obj L (col_name c) = n \<and> numbers (col_data c) \<noteq> []))
       \<and> ((\<exists>v. [''  '' @ n @ '' (min-max)'', v]
                  \<in> set (body_rows (panel_body (create_summary_stats L df title))))
          \<longleftrightarrow> (\<exists>c \<in> set (take 5 (numeric_cols df)).
                 str_obj L (col_name c) = n \<and> numbers (col_data c) \<noteq> []))"
proof -
  note rows = summary_rows [OF assms, of L title]
  have a: "[''[bold]Numeric Columns[/bold]'', v]
            \<in> set (body_rows (panel_body (create_summary_stats L df title)))
          \<longleftrightarrow> numeric_cols df \<noteq> [] \<and> v = show_nat (length (numeric_cols df))"
    using numeric_header_not_elsewhere [of v L df]
    by (simp add: rows numeric_header_in_section)
  have b: "(\<exists>v. [''  '' @ n @ '' (avg)'', v]
                  \<in> set (body_rows (panel_body (create_summary_stats L df title))))
          \<longleftrightarrow> (\<exists>c \<in> set (take 5 (numeric_cols df)).
                 str_obj L (col_name c) = n \<and> numbers (col_data c) \<noteq> [])"
  proof -
    have "(\<exists>v. [''  '' @ n @ '' (avg)'', v]
                  \<in> set (body_rows (panel_body (create_summary_stats L df title))))
        \<longleftrightarrow> (\<exists>v. [''  '' @ n @ '' (avg)'', v] \<in> set (numeric_section L df))"
      using nested_not_basic [of "n @ '' (avg)''" _ L df] avg_not_text [of n _ L df]
      by (simp add: rows)
    then show ?thesis by (simp only: avg_in_numeric_section)
  qed
  have c: "(\<exists>v. [''  '' @ n @ '' (min-max)'', v]
                  \<in> set (body_rows (panel_body (create_summary_stats L df title))))
          \<longleftrightarrow> (\<exists>c \<in> set (take 5 (numeric_cols df)).
                 str_obj L (col_name c) = n \<and> numbers (col_data c) \<noteq> [])"
  proof -
    have "(\<exists>v. [''  '' @ n @ '' (min-max)'', v]
                  \<in> set (body_rows (panel_body (create_summary_stats L df title))))
        \<longleftrightarrow> (\<exists>v. [''  '' @ n @ '' (min-max)'', v] \<in> set (numeric_section L df))"
      using nested_not_basic [of "n @ '' (min-max)''" _ L df] minmax_not_text [of n _ L df]
      by (simp add: rows)
    then show ?thesis by (simp only: minmax_in_numeric_section)
  qed
  from a b c show ?thesis by blast
qed

theorem summary_numeric_rows_witness:
  "\<not> df_empty six_numeric
   \<and> [''[bold]Numeric Columns[/bold]'', ''6'']
        \<in> set (body_rows (panel_body (create_summary_stats demo_lib six_numeric ''Stats'')))
   \<and> (\<exists>v. [''  b (avg)'', v]
        \<in> set (body_rows (panel_body (create_summary_stats demo_lib six_numeric ''Stats''))))
   \<and> (\<exists>v. [''  d (min-max)'', v]
        \<in> set (body_rows (panel_body (create_summary_stats demo_lib six_numeric ''Stats''))))
   \<and> (\<nexists>v. [''  a (avg)'', v]
        \<in> set (body_rows (panel_body (create_summary_stats demo_lib six_numeric ''Stats''))))
   \<and> (\<nexists>v. [''  f (avg)'', v]
        \<in> set (body_rows (panel_body (create_summary_stats demo_lib six_numeric ''Stats''))))"
proof -
  have h: "\<not> df_empty six_numeric" by code_simp
  have cnt: "numeric_cols six_numeric \<noteq> [] \<and> ''6'' = show_nat (length (numeric_cols six_numeric))"
    by code_simp
  have b: "\<exists>c \<in> set (take 5 (numeric_cols six_numeric)).
             str_obj demo_lib (col_name c) = ''b'' \<and> numbers (col_data c) \<noteq> []"
    by code_simp
  have d: "\<exists>c \<in> set (take 5 (numeric_cols six_numeric)).
             str_obj demo_lib (col_name c) = ''d'' \<and> numbers (col_data c) \<noteq> []"
    by code_simp
  have a: "\<not> (\<exists>c \<in> set (take 5 (numeric_cols six_numeric)).
             str_obj demo_lib (col_name c) = ''a'' \<and> numbers (col_data c) \<noteq> [])"
    by code_simp
  have f: "\<not> (\<exists>c \<in> set (take 5 (numeric_cols six_numeric)).
             str_obj demo_lib (col_name c) = ''f'' \<and> numbers (col_data c) \<noteq> [])"
    by code_simp
  note t = summary_numeric_rows [OF h, of _ demo_lib "''Stats''"]
  from t [of "''6''" "''b''"] cnt
  have 1: "[''[bold]Numeric Columns[/bold]'', ''6'']
        \<in> set (body_rows (panel_body (create_summary_stats demo_lib six_numeric ''Stats'')))"
    by blast
  from t [of "''6''" "''b''"] b
  have 2: "\<exists>v. [''  b (avg)'', v]
        \<in> set (body_rows (panel_body (create_summary_stats demo_lib six_numeric ''Stats'')))"
    by simp
  from t [of "''6''" "''d''"] d
  have 3: "\<exists>v. [''  d (min-max)'', v]
        \<in> set (body_rows (panel_body (create_summary_stats demo_lib six_numeric ''Stats'')))"
    by simp
  from t [of "''6''" "''a''"] a
  have 4: "\<nexists>v. [''  a (avg)'', v]
        \<in> set (body_rows (panel_body (create_summary_stats demo_lib six_numeric ''Stats'')))"
    by simp
  from t [of "''6''" "''f''"] f
  have 5: "\<nexists>v. [''  f (avg)'', v]
        \<in> set (body_rows (panel_body (create_summary_stats demo_lib six_numeric ''Stats'')))"
    by simp
  from h 1 2 3 4 5 show ?thesis by blast
qed

subsection \<open>Correlation matrix\<close>

lemma paired_swap: "paired ys xs = map (\<lambda>(a, b). (b, a)) (paired xs ys)"
  by (induction xs ys rule: paired.induct) simp_all

lemma pearson_sym: "pearson xs ys = pearson ys xs"
proof -
  let ?ps = "paired xs ys"
  have f: "map fst (paired ys xs) = map snd ?ps" and s: "map snd (paired ys xs) = map fst ?ps"
    by (simp_all add: paired_swap [of ys xs] comp_def case_prod_unfold)
  have xy: "sum_list (map (\<lambda>(x, y). (x - a) * (y - b)) (paired ys xs))
       = sum_list (map (\<lambda>(x, y). (x - b) * (y - a)) ?ps)" for a b
    by (simp add: paired_swap [of ys xs] comp_def case_prod_unfold mult.commute)
  have xx: "sum_list (map (\<lambda>(x, y). (x - a) ^ 2) (paired ys xs))
       = sum_list (map (\<lambda>(x, y). (y - a) ^ 2) ?ps)" for a
    by (simp add: paired_swap [of ys xs] comp_def case_prod_unfold)
  have yy: "sum_list (map (\<lambda>(x, y). (y - a) ^ 2) (paired ys xs))
       = sum_list (map (\<lambda>(x, y). (x - a) ^ 2) ?ps)" for a
    by (simp add: paired_swap [of ys xs] comp_def case_prod_unfold)
  have len: "length (paired ys xs) = length ?ps"
    by (simp add: paired_swap [of ys xs])
  show ?thesis
    unfolding pearson_def Let_def f s xy xx yy len
    by (simp add: mult.commute)
qed

lemma paired_self: "paired xs xs = map (\<lambda>a. (a, a)) (List.map_filter id xs)"
proof (induction xs)
  case Nil
  then show ?case by (simp add: List.map_filter_simps)
next
  case (Cons x xs)
  then show ?case by (cases x) (simp_all add: List.map_filter_simps)
qed

lemma numbers_opt: "is_number cd \<Longrightarrow> List.map_filter id (opt_numbers cd) = numbers cd"
  by (cases cd) (simp_all add: List.map_filter_def comp_def)

lemma sq_dev_nonneg: "0 \<le> sq_dev xs"
  unfolding sq_dev_def by (rule sum_list_nonneg) auto

lemma pearson_self:
  assumes "vs = List.map_filter id xs" and "vs \<noteq> []" and "sq_dev vs \<noteq> 0"
  shows "pearson xs xs = Some 1"
proof -
  let ?ps = "map (\<lambda>a. (a, a)) vs"
  have m1: "map fst ?ps = vs" and m2: "map snd ?ps = vs"
    by (simp_all add: comp_def)
  have sxy: "sum_list (map (\<lambda>(x, y). (x - mean vs) * (y - mean vs)) ?ps) = sq_dev vs"
    by (simp add: sq_dev_def comp_def power2_eq_square)
  have sxx: "sum_list (map (\<lambda>(x, y). (x - mean vs) ^ 2) ?ps) = sq_dev vs"
    by (simp add: sq_dev_def comp_def)
  have syy: "sum_list (map (\<lambda>(x, y). (y - mean vs) ^ 2) ?ps) = sq_dev vs"
    by (simp add: sq_dev_def comp_def)
  have root: "sqrt (sq_dev vs * sq_dev vs) = sq_dev vs"
    using sq_dev_nonneg [of vs] by simp
  have len: "\<not> length ?ps < 1"
    using assms(2) by (cases vs) simp_all
  have "pearson xs xs = Some (sq_dev vs / sq_dev vs)"
    unfolding pearson_def Let_def paired_self assms(1) [symmetric] m1 m2 sxy sxx syy root
    using len assms(3) by simp
  with assms(3) show ?thesis by simp
qed

lemma corr_nth:
  "i < length cols \<Longrightarrow> j < length cols \<Longrightarrow>
   corr cols ! i ! j = pearson (opt_numbers (col_data (cols ! i))) (opt_numbers (col_data (cols ! j)))"
  by (simp add: corr_def)

lemma numeric_cols_number: "i < length (numeric_cols df) \<Longrightarrow> is_number (col_data (numeric_cols df ! i))"
proof -
  assume "i < length (numeric_cols df)"
  then have "numeric_cols df ! i \<in> set (numeric_cols df)" by (rule nth_mem)
  then show ?thesis by (simp add: numeric_cols_def)
qed

text \<open>
  Claim C6. Over the numeric columns of a frame the correlation matrix is symmetric, and
  the diagonal entry of a column whose variance is defined and not zero is 1.
\<close>

theorem correlation_symmetric_unit_diagonal:
  assumes "i < length (numeric_cols df)" and "j < length (numeric_cols df)"
  shows "corr (numeric_cols df) ! i ! j = corr (numeric_cols df) ! j ! i
       \<and> (variance (numbers (col_data (numeric_cols df ! i))) \<notin> {None, Some 0}
            \<longrightarrow> corr (numeric_cols df) ! i ! i = Some 1)"
proof -
  let ?cols = "numeric_cols df"
  let ?vs = "numbers (col_data (?cols ! i))"
  have sym: "corr ?cols ! i ! j = corr ?cols ! j ! i"
    using assms by (simp add: corr_nth pearson_sym)
  have diag: "corr ?cols ! i ! i = Some 1" if v: "variance ?vs \<notin> {None, Some 0}"
  proof -
    from v have two: "\<not> length ?vs < 2" and nz: "sq_dev ?vs \<noteq> 0"
      by (auto simp: variance_def split: if_splits)
    from two have ne: "?vs \<noteq> []" by auto
    have eq: "?vs = List.map_filter id (opt_numbers (col_data (?cols ! i)))"
      using numeric_cols_number [OF assms(1)] by (simp add: numbers_opt)
    from pearson_self [OF eq ne nz] assms(1) show ?thesis
      by (simp add: corr_nth)
  qed
  from sym diag show ?thesis by blast
qed

theorem correlation_symmetric_unit_diagonal_witness:
  "0 < length (numeric_cols two_numeric) \<and> 1 < length (numeric_cols two_numeric)
   \<and> variance (numbers (col_data (numeric_cols two_numeric ! 0))) = Some (7 / 3)
   \<and> corr (numeric_cols two_numeric) ! 0 ! 1 = corr (numeric_cols two_numeric) ! 1 ! 0
   \<and> corr (numeric_cols two_numeric) ! 0 ! 0 = Some 1"
proof -
  have h0: "0 < length (numeric_cols two_numeric)" by code_simp
  have h1: "1 < length (numeric_cols two_numeric)" by code_simp
  have v: "variance (numbers (col_data (numeric_cols two_numeric ! 0))) = Some (7 / 3)"
    by code_simp
  then have nz: "variance (numbers (col_data (numeric_cols two_numeric ! 0))) \<notin> {None, Some 0}"
    by simp
  from correlation_symmetric_unit_diagonal [OF h0 h1] nz h0 h1 v show ?thesis by blast
qed

subsection \<open>Histogram\<close>

text \<open>
  When binning raises, and for a column of objects, the chart is that of the most frequent
  values.
\<close>

lemma hist_data_fallback:
  "\<not> is_object cd \<Longrightarrow> bins < 1 \<Longrightarrow>
   hist_data cd bins = counts_dict (py_head bins (value_counts (col_cells cd)))"
  by (simp add: hist_data_def np_histogram_def)

lemma hist_data_object:
  "is_object cd \<Longrightarrow> hist_data cd bins = counts_dict (py_head bins (value_counts (col_cells cd)))"
  by (simp add: hist_data_def)

text \<open>
  Claim C7 at the column 1.0, 1.0, 1.0, 1.03125 with 10 bins: numpy returns ten bins with
  the counts 3, 0, ..., 0, 1, but all ten get the label \<open>1.0-1.0\<close>, so the dict
  \<open>hist_data\<close> keeps one entry with the count of the last bin. The chart shows one
  interval with one value; the bin of the three values 1.0 is lost.
\<close>

theorem histogram_label_collision:
  "np_histogram [1, 1, 1, 33 / 32] 10
     = Some ([3, 0, 0, 0, 0, 0, 0, 0, 0, 1],
             [1, 321 / 320, 161 / 160, 323 / 320, 81 / 80, 65 / 64, 163 / 160, 327 / 320,
              41 / 40, 329 / 320, 33 / 32])
   \<and> hist_data (FloatCol [Some 1, Some 1, Some 1, Some (33 / 32)]) 10 = [(StrO ''1.0-1.0'', NpInt 1)]
   \<and> create_distribution_chart demo_lib (FloatCol [Some 1, Some 1, Some 1, Some (33 / 32)]) ''rating'' 10
       = Inr (Panel (TextBody ''1.0-1.0 | ######################################## |        1 (100.0%)'')
                (Some ''rating Distribution'') ''blue'')"
proof -
  let ?cd = "FloatCol [Some 1, Some 1, Some 1, Some (33 / 32)]"
  have nums: "numbers ?cd = [1, 1, 1, 33 / 32]"
    by (simp add: List.map_filter_simps)
  have a: "np_histogram [1, 1, 1, 33 / 32] 10
     = Some ([3, 0, 0, 0, 0, 0, 0, 0, 0, 1],
             [1, 321 / 320, 161 / 160, 323 / 320, 81 / 80, 65 / 64, 163 / 160, 327 / 320,
              41 / 40, 329 / 320, 33 / 32])"
    by code_simp
  have d: "hist_dict [3, 0, 0, 0, 0, 0, 0, 0, 0, 1]
             [1, 321 / 320, 161 / 160, 323 / 320, 81 / 80, 65 / 64, 163 / 160, 327 / 320,
              41 / 40, 329 / 320, 33 / 32]
           = [(StrO ''1.0-1.0'', NpInt 1)]"
    by code_simp
  have b: "hist_data ?cd 10 = [(StrO ''1.0-1.0'', NpInt 1)]"
    by (simp add: hist_data_def nums a d del: One_nat_def)
  have bar: "create_bar_chart demo_lib [(StrO ''1.0-1.0'', NpInt 1)] ''rating Distribution'' 20
       = Inr (Panel (TextBody ''1.0-1.0 | ######################################## |        1 (100.0%)'')
                (Some ''rating Distribution'') ''blue'')"
    by code_simp
  have "dropna (col_cells ?cd) \<noteq> []"
    by (simp add: dropna_def)
  then have c: "create_distribution_chart demo_lib ?cd ''rating'' 10
       = Inr (Panel (TextBody ''1.0-1.0 | ######################################## |        1 (100.0%)'')
                (Some ''rating Distribution'') ''blue'')"
    by (simp add: create_distribution_chart_def b bar)
  from a b c show ?thesis by blast
qed

end
